theory Spec2Isabelle
  imports Complex_Main "HOL-Library.Sublist"
begin

text \<open>
  The server of a turn-based word game (\<^verbatim>\<open>src/server.js\<close>): its rate limiter, its input
  sanitization and word validation, the class \<^verbatim>\<open>Lobby\<close> with the turn state machine, and
  the socket handlers that change a lobby. A method that mutates \<^verbatim>\<open>this\<close> is a function from
  the lobby to the lobby afterwards, paired with the returned value where there is one.
  \<^verbatim>\<open>Date.now()\<close>, \<^verbatim>\<open>Math.random()\<close>, \<^verbatim>\<open>uuidv4()\<close> and the random syllable, avatar and colour
  are arguments. Broadcasts and log lines are not modelled.
\<close>

section \<open>The rate limiter\<close>

text \<open>
  \<^verbatim>\<open>rateLimits\<close> is a map from the key \<^verbatim>\<open>socketId:event\<close> to the array of the
  timestamps of the accepted attempts, oldest first. \<^verbatim>\<open>Date.now()\<close> is a number of
  milliseconds; it is the parameter \<open>now\<close> of the model.
\<close>

type_synonym rateLimits = "string \<rightharpoonup> int list"

text \<open>
  The loop \<^verbatim>\<open>while (timestamps.length > 0 && timestamps[0] < now - windowMs) timestamps.shift()\<close>,
  with \<open>cutoff = now - windowMs\<close>.
\<close>

fun shiftOld :: "int \<Rightarrow> int list \<Rightarrow> int list" where
  "shiftOld cutoff [] = []"
| "shiftOld cutoff (t # ts) = (if t < cutoff then shiftOld cutoff ts else t # ts)"

definition rateKey :: "string \<Rightarrow> string \<Rightarrow> string" where
  "rateKey socketId event = socketId @ '':'' @ event"

text \<open>
  \<^verbatim>\<open>isRateLimited(socketId, event, maxRequests, windowMs)\<close>. The array is mutated in place, so
  the pruned array stays in the map also when the attempt is rejected. The result is the
  returned boolean (true: rate limited) and the map afterwards.
\<close>

definition isRateLimited ::
  "string \<Rightarrow> string \<Rightarrow> nat \<Rightarrow> int \<Rightarrow> int \<Rightarrow> rateLimits \<Rightarrow> bool \<times> rateLimits" where
  "isRateLimited socketId event maxRequests windowMs now rl =
     (let key = rateKey socketId event;
          stored = (case rl key of None \<Rightarrow> [] | Some ts \<Rightarrow> ts);
          timestamps = shiftOld (now - windowMs) stored
      in if length timestamps \<ge> maxRequests
         then (True, rl(key \<mapsto> timestamps))
         else (False, rl(key \<mapsto> timestamps @ [now])))"

text \<open>The timestamps of a key that lie within the trailing window \<open>[now - windowMs, now]\<close>.\<close>

definition inWindow :: "int \<Rightarrow> int \<Rightarrow> int list \<Rightarrow> int list" where
  "inWindow windowMs now ts = filter (\<lambda>t. now - windowMs \<le> t) ts"

section \<open>JavaScript values\<close>

text \<open>
  A JavaScript number is a double: a real number that the binary64 format represents, one
  of the two infinities, or NaN. The sign of zero is not represented. Comparisons with
  NaN are false, and arithmetic on NaN gives NaN.
\<close>

datatype jsnum = Num real | PInf | NInf | NaN

text \<open>
  The result of an arithmetic operation is the exact result rounded to a double, to the
  nearest and in a tie to the even significand (IEEE 754). \<open>bitLength n\<close> is the number
  of binary digits of \<open>n\<close>, and \<open>floorLog2 x\<close> the integer \<open>k\<close> with \<open>2^k \<le> x < 2^(k+1)\<close> for \<open>x > 0\<close>.
\<close>

fun bitLength :: "nat \<Rightarrow> nat" where
  "bitLength n = (if n = 0 then 0 else Suc (bitLength (n div 2)))"

declare bitLength.simps [simp del]

definition floorLog2 :: "real \<Rightarrow> int" where
  "floorLog2 x =
     (if 1 \<le> x then int (bitLength (nat \<lfloor>x\<rfloor>)) - 1
      else - int (bitLength (nat \<lceil>1 / x\<rceil> - 1)))"

text \<open>The nearest integer, in a tie the even one.\<close>

definition roundEven :: "real \<Rightarrow> int" where
  "roundEven y =
     (let f = \<lfloor>y\<rfloor>
      in if y - of_int f < 1 / 2 then f
         else if 1 / 2 < y - of_int f then f + 1
         else if even f then f else f + 1)"

text \<open>
  The exponent of the last binary place of the doubles around \<open>x\<close>: a significand has 53
  bits, and below \<open>2^(-1022)\<close> the doubles are the multiples of \<open>2^(-1074)\<close>.
\<close>

definition ulpExponent :: "real \<Rightarrow> int" where
  "ulpExponent x = max (floorLog2 \<bar>x\<bar> - 52) (- 1074)"

text \<open>
  The double that an operation with the exact result \<open>x\<close> returns: \<open>x\<close> rounded to a
  multiple of its last place, and an infinity when that reaches \<open>2^1024\<close>.
\<close>

definition toDouble :: "real \<Rightarrow> jsnum" where
  "toDouble x =
     (if x = 0 then Num 0
      else
        let e = ulpExponent x;
            r = of_int (roundEven (x / 2 powi e)) * 2 powi e
        in if 2 ^ 1024 \<le> \<bar>r\<bar> then (if x < 0 then NInf else PInf) else Num r)"

fun js_lt :: "jsnum \<Rightarrow> jsnum \<Rightarrow> bool" where
  "js_lt NaN b = False"
| "js_lt a NaN = False"
| "js_lt (Num a) (Num b) = (a < b)"
| "js_lt (Num a) PInf = True"
| "js_lt (Num a) NInf = False"
| "js_lt PInf b = False"
| "js_lt NInf NInf = False"
| "js_lt NInf b = True"

fun js_le :: "jsnum \<Rightarrow> jsnum \<Rightarrow> bool" where
  "js_le NaN b = False"
| "js_le a NaN = False"
| "js_le (Num a) (Num b) = (a \<le> b)"
| "js_le (Num a) PInf = True"
| "js_le (Num a) NInf = False"
| "js_le PInf PInf = True"
| "js_le PInf b = False"
| "js_le NInf b = True"

definition js_gt :: "jsnum \<Rightarrow> jsnum \<Rightarrow> bool" where
  "js_gt a b = js_lt b a"

definition js_ge :: "jsnum \<Rightarrow> jsnum \<Rightarrow> bool" where
  "js_ge a b = js_le b a"

fun js_neg :: "jsnum \<Rightarrow> jsnum" where
  "js_neg (Num a) = Num (- a)"
| "js_neg PInf = NInf"
| "js_neg NInf = PInf"
| "js_neg NaN = NaN"

fun js_add :: "jsnum \<Rightarrow> jsnum \<Rightarrow> jsnum" where
  "js_add NaN b = NaN"
| "js_add a NaN = NaN"
| "js_add (Num a) (Num b) = toDouble (a + b)"
| "js_add (Num a) b = b"
| "js_add PInf NInf = NaN"
| "js_add NInf PInf = NaN"
| "js_add a b = a"

definition js_sub :: "jsnum \<Rightarrow> jsnum \<Rightarrow> jsnum" where
  "js_sub a b = js_add a (js_neg b)"

text \<open>The sign of a number that is not NaN: \<open>-1\<close>, \<open>0\<close> or \<open>1\<close>.\<close>

fun js_sign :: "jsnum \<Rightarrow> int" where
  "js_sign (Num a) = (if a < 0 then - 1 else if a = 0 then 0 else 1)"
| "js_sign PInf = 1"
| "js_sign NInf = - 1"
| "js_sign NaN = 0"

definition signedInf :: "int \<Rightarrow> jsnum" where
  "signedInf s = (if s < 0 then NInf else PInf)"

fun js_mul :: "jsnum \<Rightarrow> jsnum \<Rightarrow> jsnum" where
  "js_mul NaN b = NaN"
| "js_mul a NaN = NaN"
| "js_mul (Num a) (Num b) = toDouble (a * b)"
| "js_mul a b = (if js_sign a * js_sign b = 0 then NaN else signedInf (js_sign a * js_sign b))"

text \<open>
  Division: a finite number over zero is an infinity (zero counts as positive zero), zero
  over zero and infinity over infinity are NaN, a finite number over an infinity is zero.
\<close>

fun js_div :: "jsnum \<Rightarrow> jsnum \<Rightarrow> jsnum" where
  "js_div NaN b = NaN"
| "js_div a NaN = NaN"
| "js_div (Num a) (Num b) =
     (if b = 0 then (if a = 0 then NaN else signedInf (js_sign (Num a)))
      else toDouble (a / b))"
| "js_div (Num a) b = Num 0"
| "js_div a (Num b) = signedInf (js_sign a * (if b < 0 then - 1 else 1))"
| "js_div a b = NaN"

text \<open>
  \<^verbatim>\<open>Math.round\<close> returns the nearest integer, in a tie the greater one; the integers
  nearest to a double are doubles, so that nothing is rounded twice.
\<close>

fun Math_round :: "jsnum \<Rightarrow> jsnum" where
  "Math_round (Num a) = Num (of_int \<lfloor>a + 1 / 2\<rfloor>)"
| "Math_round a = a"

fun Math_max :: "jsnum \<Rightarrow> jsnum \<Rightarrow> jsnum" where
  "Math_max NaN b = NaN"
| "Math_max a NaN = NaN"
| "Math_max a b = (if js_lt a b then b else a)"

fun Math_min :: "jsnum \<Rightarrow> jsnum \<Rightarrow> jsnum" where
  "Math_min NaN b = NaN"
| "Math_min a NaN = NaN"
| "Math_min a b = (if js_lt b a then b else a)"

text \<open>
  A string is the list of its UTF-16 code units, so that \<^verbatim>\<open>length\<close> counts what
  JavaScript counts. \<open>str\<close> writes an ASCII literal.
\<close>

type_synonym jsstring = "nat list"

definition str :: "string \<Rightarrow> jsstring" where
  "str s = map of_char s"

text \<open>
  The values a handler can receive in a JSON payload. \<open>JObject\<close> is a plain object: it
  is truthy and converts to the number NaN. Arrays are not represented.
\<close>

datatype jsval = JUndefined | JNull | JBool bool | JNumber jsnum | JString jsstring | JObject

fun truthy :: "jsval \<Rightarrow> bool" where
  "truthy JUndefined = False"
| "truthy JNull = False"
| "truthy (JBool b) = b"
| "truthy (JNumber n) = (n \<noteq> Num 0 \<and> n \<noteq> NaN)"
| "truthy (JString s) = (s \<noteq> [])"
| "truthy JObject = True"

text \<open>
  The conversion of an argument of \<^verbatim>\<open>Math.max\<close> to a number. The conversion of a string
  (the numeric-literal grammar of the language) is the parameter \<open>StringToNumber\<close>.
\<close>

fun ToNumber :: "(jsstring \<Rightarrow> jsnum) \<Rightarrow> jsval \<Rightarrow> jsnum" where
  "ToNumber StringToNumber JUndefined = NaN"
| "ToNumber StringToNumber JNull = Num 0"
| "ToNumber StringToNumber (JBool b) = (if b then Num 1 else Num 0)"
| "ToNumber StringToNumber (JNumber n) = n"
| "ToNumber StringToNumber (JString s) = StringToNumber s"
| "ToNumber StringToNumber JObject = NaN"

section \<open>Input sanitization\<close>

text \<open>
  \<^verbatim>\<open>.replace(/<[^>]*>/g, '')\<close>: at a \<^verbatim>\<open><\<close> that is followed somewhere by a \<^verbatim>\<open>>\<close>, everything
  up to and including the first such \<^verbatim>\<open>>\<close> is removed and the scan goes on behind it.
\<close>

function removeTags :: "jsstring \<Rightarrow> jsstring" where
  "removeTags [] = []"
| "removeTags (c # cs) =
     (if c = 60 \<and> 62 \<in> set cs
      then removeTags (tl (dropWhile (\<lambda>x. x \<noteq> 62) cs))
      else c # removeTags cs)"
  by pat_completeness auto
termination
proof (relation "measure length")
  show "wf (measure length)" by simp
next
  fix c :: nat and cs :: "nat list"
  have "length (tl (dropWhile (\<lambda>x. x \<noteq> 62) cs)) \<le> length cs"
    using length_dropWhile_le [of "\<lambda>x. x \<noteq> 62" cs] by simp
  then show "(tl (dropWhile (\<lambda>x. x \<noteq> 62) cs), c # cs) \<in> measure length"
    by simp
next
  fix c :: nat and cs :: "nat list"
  show "(cs, c # cs) \<in> measure length" by simp
qed

text \<open>\<^verbatim>\<open>.replace(/[<>&"'`]/g, '')\<close>.\<close>

definition dangerousChar :: "nat \<Rightarrow> bool" where
  "dangerousChar c = (c = 60 \<or> c = 62 \<or> c = 38 \<or> c = 34 \<or> c = 39 \<or> c = 96)"

definition removeDangerous :: "jsstring \<Rightarrow> jsstring" where
  "removeDangerous s = filter (\<lambda>c. \<not> dangerousChar c) s"

text \<open>\<^verbatim>\<open>.replace(/[\x00-\x1F\x7F]/g, '')\<close>.\<close>

definition removeControl :: "jsstring \<Rightarrow> jsstring" where
  "removeControl s = filter (\<lambda>c. \<not> (c \<le> 31 \<or> c = 127)) s"

text \<open>\<^verbatim>\<open>.trim()\<close> strips the white space and line terminators of the language at both ends.\<close>

definition whiteSpace :: "nat \<Rightarrow> bool" where
  "whiteSpace c = ((9 \<le> c \<and> c \<le> 13) \<or> c = 32 \<or> c = 160 \<or> c = 5760
     \<or> (8192 \<le> c \<and> c \<le> 8202) \<or> c = 8232 \<or> c = 8233 \<or> c = 8239 \<or> c = 8287
     \<or> c = 12288 \<or> c = 65279)"

definition trim :: "jsstring \<Rightarrow> jsstring" where
  "trim s = rev (dropWhile whiteSpace (rev (dropWhile whiteSpace s)))"

text \<open>\<^verbatim>\<open>sanitizeText(text, maxLength)\<close>.\<close>

fun sanitizeText :: "jsval \<Rightarrow> nat \<Rightarrow> jsstring" where
  "sanitizeText (JString text) maxLength =
     trim (take maxLength (removeDangerous (removeTags text)))"
| "sanitizeText v maxLength = []"

text \<open>\<^verbatim>\<open>sanitizeName(name, maxLength)\<close>.\<close>

fun sanitizeName :: "jsval \<Rightarrow> nat \<Rightarrow> jsstring" where
  "sanitizeName (JString name) maxLength =
     (let sanitized = trim (take maxLength (removeControl (removeDangerous (removeTags name))))
      in if sanitized = [] then str ''Guest'' else sanitized)"
| "sanitizeName v maxLength = str ''Guest''"

section \<open>Word validation\<close>

text \<open>
  \<^verbatim>\<open>validateWord(word, syllable)\<close>. The dictionary \<^verbatim>\<open>WORDS\<close> is a global of the program and
  \<^verbatim>\<open>toLowerCase\<close> a function of the language (the Unicode case mapping): both are
  parameters. \<^verbatim>\<open>lowerWord.includes(lowerSyl)\<close> is the contiguous-sublist test.
\<close>

definition validateWord ::
  "(jsstring \<Rightarrow> jsstring) \<Rightarrow> jsstring list \<Rightarrow> jsstring \<Rightarrow> jsstring \<Rightarrow> bool" where
  "validateWord toLowerCase WORDS word syllable =
     (if word = [] \<or> length word < 2 then False
      else let lowerWord = toLowerCase word; lowerSyl = toLowerCase syllable
           in if \<not> sublist lowerSyl lowerWord then False
              else list_ex (\<lambda>w. toLowerCase w = lowerWord) WORDS)"

section \<open>Players and lobbies\<close>

text \<open>
  The player object that \<^verbatim>\<open>addPlayer\<close> builds. \<^verbatim>\<open>score\<close>, \<^verbatim>\<open>wordsCompleted\<close> and
  \<^verbatim>\<open>disconnectedAt\<close> are not set at creation: \<open>None\<close> is \<^verbatim>\<open>undefined\<close> (for
  \<^verbatim>\<open>disconnectedAt\<close> also \<^verbatim>\<open>null\<close>).
\<close>

record player =
  id_p :: string
  name_p :: jsstring
  avatar :: jsstring
  color :: jsstring
  lives :: jsnum
  isConnected :: bool
  isReady :: bool
  currentInput :: jsstring
  joinedAt :: int
  score :: "jsnum option"
  wordsCompleted :: "jsnum option"
  disconnectedAt :: "int option"

record settings =
  maxPlayers :: jsnum
  startLives :: jsnum
  turnTime :: jsnum
  minWordLength :: jsnum
  isPublic :: bool

datatype lobbyState = Waiting | Playing | Finished

text \<open>
  The callbacks that the lobby hands to \<^verbatim>\<open>setTimeout\<close>: the advance to the next player
  500 ms after an accepted word, the continuation of \<^verbatim>\<open>handleTimeout\<close> after 1500 ms
  (it has captured the array \<^verbatim>\<open>alivePlayers\<close>, of which it reads the length), and the
  return to \<^verbatim>\<open>waiting\<close> 5000 ms after \<^verbatim>\<open>endGame\<close>.
\<close>

datatype deferred = AdvanceAfterWord | AfterExplosion nat | ResetAfterEnd

text \<open>
  The fields of the class \<^verbatim>\<open>Lobby\<close>. \<open>timer\<close> and \<open>afkCheckInterval\<close> say whether the
  interval behind the handle is armed (\<^verbatim>\<open>clearInterval\<close> makes it \<open>False\<close>); \<open>pending\<close>
  is the list of the callbacks of this lobby that wait in the timeout queue of the
  runtime. \<open>currentTurnIndex\<close> is a natural number or NaN (\<open>None\<close>): the code only ever
  assigns \<open>0\<close>, a decrement of a positive index and a remainder.
\<close>

record lobby =
  id_l :: string
  code :: string
  name_l :: jsstring
  hostId :: string
  originalHostId :: string
  players :: "player list"
  state :: lobbyState
  settings :: settings
  currentTurnIndex :: "nat option"
  currentSyllable :: jsstring
  usedWords :: "jsstring set"
  timer :: bool
  timerValue :: jsnum
  lastActivity :: int
  turnStartTime :: int
  turnLocked :: bool
  afkCheckInterval :: bool
  pending :: "deferred list"

subsection \<open>Lobby codes and the constructor\<close>

definition chars :: string where
  "chars = ''ABCDEFGHJKLMNPQRSTUVWXYZ23456789''"

text \<open>\<^verbatim>\<open>s.charAt(i)\<close> is the empty string out of range.\<close>

definition charAt :: "string \<Rightarrow> int \<Rightarrow> string" where
  "charAt s i = (if 0 \<le> i \<and> i < int (length s) then [s ! nat i] else [])"

text \<open>
  \<^verbatim>\<open>generateLobbyCode()\<close>. The results of the six calls of \<^verbatim>\<open>Math.random()\<close> are
  \<open>rnd 0\<close>, ..., \<open>rnd 5\<close>.
\<close>

definition generateLobbyCode :: "(nat \<Rightarrow> real) \<Rightarrow> string" where
  "generateLobbyCode rnd =
     foldl (\<lambda>code i. code @ charAt chars \<lfloor>rnd i * real (length chars)\<rfloor>) [] [0..<6]"

text \<open>
  \<^verbatim>\<open>new Lobby(hostId, hostName, lobbyName, isPublic)\<close>, with the identifier that \<^verbatim>\<open>uuidv4()\<close>
  returned, the random draws of the code and the clock.
\<close>

definition newLobby ::
  "string \<Rightarrow> (nat \<Rightarrow> real) \<Rightarrow> int \<Rightarrow> string \<Rightarrow> jsval \<Rightarrow> jsval \<Rightarrow> bool \<Rightarrow> lobby" where
  "newLobby uuid rnd now host hostName lobbyName public =
     (let safeLobbyName = sanitizeName lobbyName 30;
          safeHostName = sanitizeName hostName 20
      in \<lparr> id_l = uuid,
           code = generateLobbyCode rnd,
           name_l = (if safeLobbyName = [] then safeHostName @ 39 # str ''s Lobby'' else safeLobbyName),
           hostId = host,
           originalHostId = host,
           players = [],
           state = Waiting,
           settings = \<lparr> maxPlayers = Num 8, startLives = Num 3, turnTime = Num 10,
                        minWordLength = Num 2, isPublic = public \<rparr>,
           currentTurnIndex = Some 0,
           currentSyllable = [],
           usedWords = {},
           timer = False,
           timerValue = Num 0,
           lastActivity = now,
           turnStartTime = 0,
           turnLocked = False,
           afkCheckInterval = True,
           pending = [] \<rparr>)"

subsection \<open>The roster\<close>

text \<open>\<^verbatim>\<open>array.findIndex(pred)\<close>, with \<open>None\<close> for \<open>-1\<close>.\<close>

fun findIndex :: "('a \<Rightarrow> bool) \<Rightarrow> 'a list \<Rightarrow> nat option" where
  "findIndex P [] = None"
| "findIndex P (x # xs) =
     (if P x then Some 0 else map_option Suc (findIndex P xs))"

text \<open>
  \<^verbatim>\<open>addPlayer(playerId, playerName)\<close>; \<open>av\<close> and \<open>col\<close> are what \<^verbatim>\<open>getRandomAvatar()\<close> and
  \<^verbatim>\<open>getRandomColor()\<close> returned. The capacity check comes first.
\<close>

definition addPlayer ::
  "int \<Rightarrow> jsstring \<Rightarrow> jsstring \<Rightarrow> string \<Rightarrow> jsval \<Rightarrow> lobby \<Rightarrow> bool \<times> lobby" where
  "addPlayer now av col playerId playerName L =
     (if js_ge (Num (real (length (players L)))) (maxPlayers (settings L)) then (False, L)
      else if find (\<lambda>p. id_p p = playerId) (players L) \<noteq> None then (True, L)
      else
        let safeName = sanitizeName playerName 20;
            newPlayer = \<lparr> id_p = playerId, name_p = safeName, avatar = av, color = col,
                         lives = startLives (settings L), isConnected = True, isReady = False,
                         currentInput = [], joinedAt = now, score = None,
                         wordsCompleted = None, disconnectedAt = None \<rparr>
        in (True, L\<lparr> players := players L @ [newPlayer],
                     lastActivity := now,
                     hostId := (if playerId = originalHostId L then playerId else hostId L) \<rparr>))"

definition getAlivePlayers :: "lobby \<Rightarrow> player list" where
  "getAlivePlayers L = filter (\<lambda>p. js_gt (lives p) (Num 0)) (players L)"

text \<open>
  \<^verbatim>\<open>endGame()\<close>: the timer is cleared, the state becomes \<^verbatim>\<open>finished\<close> and the reset is
  scheduled. The ranking is only broadcast; broadcasts are not part of the model.
\<close>

definition endGame :: "lobby \<Rightarrow> lobby" where
  "endGame L = L\<lparr> timer := False, state := Finished, pending := pending L @ [ResetAfterEnd] \<rparr>"

text \<open>The callback that \<^verbatim>\<open>endGame\<close> scheduled.\<close>

definition resetAfterEnd :: "lobby \<Rightarrow> lobby" where
  "resetAfterEnd L =
     L\<lparr> state := Waiting,
        players := map (\<lambda>p. p\<lparr> isReady := False, lives := startLives (settings L),
                               score := Some (Num 0), wordsCompleted := Some (Num 0) \<rparr>)
                       (players L) \<rparr>"

text \<open>\<^verbatim>\<open>removePlayer(playerId)\<close>.\<close>

definition removePlayer :: "int \<Rightarrow> string \<Rightarrow> lobby \<Rightarrow> lobby" where
  "removePlayer now playerId L =
     (case findIndex (\<lambda>p. id_p p = playerId) (players L) of
        None \<Rightarrow> L
      | Some index \<Rightarrow>
          let rest = take index (players L) @ drop (Suc index) (players L);
              L1 = L\<lparr> players := rest, lastActivity := now \<rparr>;
              L2 = (if hostId L1 = playerId \<and> rest \<noteq> [] \<and> playerId \<noteq> originalHostId L1
                    then L1\<lparr> hostId := id_p (hd rest) \<rparr> else L1)
          in if state L2 = Playing
             then
               let L3 = (case currentTurnIndex L2 of
                           None \<Rightarrow> L2
                         | Some i \<Rightarrow>
                             if index < i then L2\<lparr> currentTurnIndex := Some (i - 1) \<rparr>
                             else if index = i
                             then L2\<lparr> currentTurnIndex := Some (i mod max 1 (length rest)) \<rparr>
                             else L2)
               in if length (getAlivePlayers L3) \<le> 1 then endGame L3 else L3
             else L2)"

definition markDisconnected :: "int \<Rightarrow> string \<Rightarrow> lobby \<Rightarrow> lobby" where
  "markDisconnected now playerId L =
     (case findIndex (\<lambda>p. id_p p = playerId) (players L) of
        None \<Rightarrow> L
      | Some i \<Rightarrow> L\<lparr> players := (players L)
            [i := (players L ! i)\<lparr> isConnected := False, disconnectedAt := Some now \<rparr>] \<rparr>)"

definition markConnected :: "string \<Rightarrow> lobby \<Rightarrow> lobby" where
  "markConnected playerId L =
     (case findIndex (\<lambda>p. id_p p = playerId) (players L) of
        None \<Rightarrow> L
      | Some i \<Rightarrow> L\<lparr> players := (players L)
            [i := (players L ! i)\<lparr> isConnected := True, disconnectedAt := None \<rparr>] \<rparr>)"

subsection \<open>Turns\<close>

text \<open>\<^verbatim>\<open>this.players[this.currentTurnIndex]\<close>, \<open>None\<close> when it is \<^verbatim>\<open>undefined\<close>.\<close>

definition currentPlayerOf :: "lobby \<Rightarrow> player option" where
  "currentPlayerOf L =
     (case currentTurnIndex L of
        None \<Rightarrow> None
      | Some i \<Rightarrow> if i < length (players L) then Some (players L ! i) else None)"

text \<open>
  The loop of \<^verbatim>\<open>nextTurn\<close> that skips the players without lives. The first argument is
  the number of iterations that \<^verbatim>\<open>checks < this.players.length\<close> still allows.
  \<^verbatim>\<open>undefined <= 0\<close> is false, so the loop stops at an index out of range.
\<close>

fun skipDead :: "nat \<Rightarrow> player list \<Rightarrow> nat option \<Rightarrow> nat option" where
  "skipDead 0 ps idx = idx"
| "skipDead (Suc k) ps None = None"
| "skipDead (Suc k) ps (Some i) =
     (if i < length ps \<and> js_le (lives (ps ! i)) (Num 0)
      then skipDead k ps (Some ((i + 1) mod length ps))
      else Some i)"

text \<open>
  \<^verbatim>\<open>nextTurn()\<close>; \<open>syl\<close> is what \<^verbatim>\<open>getRandomSyllable()\<close> returned. The old interval is
  cleared and a new one is armed.
\<close>

definition nextTurn :: "jsstring \<Rightarrow> int \<Rightarrow> lobby \<Rightarrow> lobby" where
  "nextTurn syl now L =
     L\<lparr> turnLocked := False,
        currentTurnIndex := skipDead (length (players L)) (players L) (currentTurnIndex L),
        currentSyllable := syl,
        timerValue := turnTime (settings L),
        turnStartTime := now,
        lastActivity := now,
        timer := True \<rparr>"

text \<open>\<^verbatim>\<open>(this.currentTurnIndex + 1) % this.players.length\<close>: NaN for an empty roster.\<close>

definition advanceIndex :: "lobby \<Rightarrow> nat option" where
  "advanceIndex L =
     (case currentTurnIndex L of
        None \<Rightarrow> None
      | Some i \<Rightarrow> if players L = [] then None else Some ((i + 1) mod length (players L)))"

text \<open>\<^verbatim>\<open>handleTimeout()\<close>, up to the call of \<^verbatim>\<open>setTimeout\<close>.\<close>

definition handleTimeout :: "lobby \<Rightarrow> lobby" where
  "handleTimeout L =
     (let L1 = L\<lparr> timer := False, turnLocked := True \<rparr>
      in case currentTurnIndex L1 of
           None \<Rightarrow> L1
         | Some i \<Rightarrow>
             if i < length (players L1)
             then
               let loser = players L1 ! i;
                   L2 = L1\<lparr> players := (players L1)
                          [i := loser\<lparr> lives := js_sub (lives loser) (Num 1),
                                       currentInput := [] \<rparr>] \<rparr>;
                   alivePlayers = getAlivePlayers L2
               in L2\<lparr> pending := pending L2 @ [AfterExplosion (length alivePlayers)] \<rparr>
             else L1)"

text \<open>The callback that \<^verbatim>\<open>handleTimeout\<close> scheduled, with the captured number of players alive.\<close>

definition afterExplosion :: "nat \<Rightarrow> jsstring \<Rightarrow> int \<Rightarrow> lobby \<Rightarrow> lobby" where
  "afterExplosion alive syl now L =
     (if alive \<le> 1 then endGame L
      else nextTurn syl now (L\<lparr> currentTurnIndex := advanceIndex L \<rparr>))"

text \<open>The callback that an accepted \<^verbatim>\<open>submitWord\<close> scheduled.\<close>

definition advanceAfterWord :: "jsstring \<Rightarrow> int \<Rightarrow> lobby \<Rightarrow> lobby" where
  "advanceAfterWord syl now L = nextTurn syl now (L\<lparr> currentTurnIndex := advanceIndex L \<rparr>)"

text \<open>
  The callback of the interval that \<^verbatim>\<open>nextTurn\<close> arms, every 50 ms. It does not run once
  the interval is cleared. The literal \<^verbatim>\<open>0.05\<close> is the double nearest to \<open>5/100\<close>.
\<close>

definition timerTick :: "lobby \<Rightarrow> lobby" where
  "timerTick L =
     (if \<not> timer L then L
      else
        let L1 = L\<lparr> timerValue := js_sub (timerValue L) (toDouble (5 / 100)) \<rparr>
        in if js_le (timerValue L1) (Num 0) then handleTimeout L1 else L1)"

text \<open>
  The part of the callback of \<^verbatim>\<open>startAfkChecker\<close> that acts on a game: the player whose
  turn it is has been disconnected for more than five seconds. (The removal of an idle
  lobby from the registry is not modelled.)
\<close>

definition afkCheck :: "int \<Rightarrow> lobby \<Rightarrow> lobby" where
  "afkCheck now L =
     (if \<not> afkCheckInterval L \<or> state L \<noteq> Playing then L
      else case currentPlayerOf L of
             None \<Rightarrow> L
           | Some currentPlayer \<Rightarrow>
               if isConnected currentPlayer then L
               else
                 let since = (case disconnectedAt currentPlayer of
                                None \<Rightarrow> now
                              | Some t \<Rightarrow> if t = 0 then now else t)
                 in if now - since > 5000 then handleTimeout L else L)"

text \<open>\<^verbatim>\<open>startGame()\<close>.\<close>

definition startGame :: "jsstring \<Rightarrow> int \<Rightarrow> lobby \<Rightarrow> bool \<times> lobby" where
  "startGame syl now L =
     (let readyPlayers = filter (\<lambda>p. isReady p \<and> isConnected p) (players L)
      in if length readyPlayers < 2 then (False, L)
         else
           let L1 = L\<lparr> players := readyPlayers, state := Playing, usedWords := {},
                        currentTurnIndex := Some 0 \<rparr>;
               L2 = L1\<lparr> players := map (\<lambda>p. p\<lparr> lives := startLives (settings L1),
                                                 currentInput := [],
                                                 score := Some (Num 0),
                                                 wordsCompleted := Some (Num 0) \<rparr>)
                                         (players L1) \<rparr>
           in (True, nextTurn syl now L2))"

subsection \<open>Submissions\<close>

datatype reason =
    GameNotInProgress | TooLate | NotYourTurn | Eliminated | PlayerDisconnected
  | InvalidInput | WordTooShort | WordAlreadyUsed | InvalidWord

datatype submitResult = Success | Failure reason

text \<open>\<^verbatim>\<open>x || 0\<close> for a field that may be \<^verbatim>\<open>undefined\<close>.\<close>

fun orZero :: "jsnum option \<Rightarrow> jsnum" where
  "orZero None = Num 0"
| "orZero (Some n) = (if n = NaN then Num 0 else n)"

text \<open>The score of an accepted word of \<open>n\<close> code units.\<close>

definition totalScore :: "nat \<Rightarrow> lobby \<Rightarrow> jsnum" where
  "totalScore n L =
     (let timeRemaining = Math_max (Num 0) (timerValue L);
          wordLength = Num (real n);
          baseScore = js_mul wordLength (Num 10);
          speedBonus = Math_round (js_mul (js_div timeRemaining (turnTime (settings L))) (Num 50));
          lengthBonus = Math_max (Num 0) (js_mul (js_sub wordLength (Num 5)) (Num 5))
      in js_add (js_add baseScore speedBonus) lengthBonus)"

text \<open>
  \<^verbatim>\<open>submitWord(playerId, word)\<close>: the returned object and the lobby afterwards. Every
  rejection returns before anything is assigned.
\<close>

definition submitWord ::
  "(jsstring \<Rightarrow> jsstring) \<Rightarrow> jsstring list \<Rightarrow> int \<Rightarrow> string \<Rightarrow> jsval \<Rightarrow> lobby
     \<Rightarrow> submitResult \<times> lobby" where
  "submitWord toLowerCase WORDS now playerId word L =
     (if state L \<noteq> Playing then (Failure GameNotInProgress, L)
      else if turnLocked L then (Failure TooLate, L)
      else case currentTurnIndex L of
        None \<Rightarrow> (Failure NotYourTurn, L)
      | Some i \<Rightarrow>
          if \<not> i < length (players L) then (Failure NotYourTurn, L)
          else
            let currentPlayer = players L ! i
            in if id_p currentPlayer \<noteq> playerId then (Failure NotYourTurn, L)
               else if js_le (lives currentPlayer) (Num 0) then (Failure Eliminated, L)
               else if \<not> isConnected currentPlayer then (Failure PlayerDisconnected, L)
               else case word of
                 JString w \<Rightarrow>
                   let normalizedWord = toLowerCase (sanitizeText word 50)
                   in if js_lt (Num (real (length normalizedWord))) (minWordLength (settings L))
                      then (Failure WordTooShort, L)
                      else if normalizedWord \<in> usedWords L then (Failure WordAlreadyUsed, L)
                      else if \<not> validateWord toLowerCase WORDS normalizedWord (currentSyllable L)
                      then (Failure InvalidWord, L)
                      else
                        let scored = currentPlayer
                              \<lparr> currentInput := [],
                                score := Some (js_add (orZero (score currentPlayer))
                                                 (totalScore (length normalizedWord) L)),
                                wordsCompleted :=
                                  Some (js_add (orZero (wordsCompleted currentPlayer)) (Num 1)) \<rparr>
                        in (Success,
                            L\<lparr> usedWords := insert normalizedWord (usedWords L),
                               players := (players L)[i := scored],
                               lastActivity := now,
                               timer := False,
                               pending := pending L @ [AdvanceAfterWord] \<rparr>)
               | _ \<Rightarrow> (Failure InvalidInput, L))"

text \<open>\<^verbatim>\<open>updateTyping(playerId, text)\<close>.\<close>

definition updateTyping :: "int \<Rightarrow> string \<Rightarrow> jsval \<Rightarrow> lobby \<Rightarrow> lobby" where
  "updateTyping now playerId text L =
     (if state L \<noteq> Playing \<or> turnLocked L then L
      else case currentTurnIndex L of
        None \<Rightarrow> L
      | Some i \<Rightarrow>
          if \<not> i < length (players L) then L
          else
            let currentPlayer = players L ! i
            in if id_p currentPlayer \<noteq> playerId \<or> js_le (lives currentPlayer) (Num 0)
                  \<or> \<not> isConnected currentPlayer
               then L
               else L\<lparr> players := (players L)
                        [i := currentPlayer\<lparr> currentInput := sanitizeText text 50 \<rparr>],
                      lastActivity := now \<rparr>)"

text \<open>\<^verbatim>\<open>destroy()\<close>: both intervals are cleared.\<close>

definition destroy :: "lobby \<Rightarrow> lobby" where
  "destroy L = L\<lparr> timer := False, afkCheckInterval := False \<rparr>"

section \<open>Socket handlers\<close>

text \<open>
  The handlers are modelled on the lobby that the connection's player is in; the lookup
  of that lobby in the registries is not part of the model.
\<close>

subsection \<open>\<^verbatim>\<open>lobby:settings\<close>\<close>

text \<open>The fields of the payload; a field that the payload lacks is \<open>JUndefined\<close>.\<close>

record settingsRequest =
  reqMaxPlayers :: jsval
  reqStartLives :: jsval
  reqTurnTime :: jsval
  reqMinWordLength :: jsval
  reqIsPublic :: jsval

text \<open>
  \<^verbatim>\<open>if (settings.f) lobby.settings.f = Math.min(hi, Math.max(lo, settings.f))\<close>: the new
  value of the field, given the old one.
\<close>

definition clampSetting ::
  "(jsstring \<Rightarrow> jsnum) \<Rightarrow> real \<Rightarrow> real \<Rightarrow> jsval \<Rightarrow> jsnum \<Rightarrow> jsnum" where
  "clampSetting StringToNumber lo hi v old =
     (if truthy v then Math_min (Num hi) (Math_max (Num lo) (ToNumber StringToNumber v))
      else old)"

definition lobbySettings ::
  "(jsstring \<Rightarrow> jsnum) \<Rightarrow> string \<Rightarrow> settingsRequest \<Rightarrow> lobby \<Rightarrow> lobby" where
  "lobbySettings StringToNumber playerId req L =
     (if hostId L \<noteq> playerId then L
      else
        let old = settings L
        in L\<lparr> settings :=
             \<lparr> maxPlayers = clampSetting StringToNumber 2 12 (reqMaxPlayers req) (maxPlayers old),
               startLives = clampSetting StringToNumber 1 5 (reqStartLives req) (startLives old),
               turnTime = clampSetting StringToNumber 5 30 (reqTurnTime req) (turnTime old),
               minWordLength =
                 clampSetting StringToNumber 2 5 (reqMinWordLength req) (minWordLength old),
               isPublic = (case reqIsPublic req of JBool b \<Rightarrow> b | _ \<Rightarrow> isPublic old) \<rparr> \<rparr>)"

text \<open>The bounds that the handler is to enforce.\<close>

definition inRange :: "real \<Rightarrow> real \<Rightarrow> jsnum \<Rightarrow> bool" where
  "inRange lo hi n = (js_le (Num lo) n \<and> js_le n (Num hi))"

definition settingsInBounds :: "settings \<Rightarrow> bool" where
  "settingsInBounds s =
     (inRange 2 12 (maxPlayers s) \<and> inRange 1 5 (startLives s)
      \<and> inRange 5 30 (turnTime s) \<and> inRange 2 5 (minWordLength s))"

subsection \<open>\<^verbatim>\<open>game:start\<close> and \<^verbatim>\<open>game:ready\<close>\<close>

datatype startError = OnlyHostCanStart | NeedAtLeastTwoPlayers

text \<open>The handler of \<^verbatim>\<open>game:start\<close>: an error that is emitted, or what \<^verbatim>\<open>startGame\<close> returned.\<close>

definition gameStart :: "jsstring \<Rightarrow> int \<Rightarrow> string \<Rightarrow> lobby \<Rightarrow> (startError + bool) \<times> lobby" where
  "gameStart syl now playerId L =
     (if hostId L \<noteq> playerId then (Inl OnlyHostCanStart, L)
      else if length (players L) < 2 then (Inl NeedAtLeastTwoPlayers, L)
      else case startGame syl now L of (started, L') \<Rightarrow> (Inr started, L'))"

text \<open>The handler of \<^verbatim>\<open>game:ready\<close>.\<close>

definition gameReady :: "string \<Rightarrow> lobby \<Rightarrow> lobby" where
  "gameReady playerId L =
     (if state L \<noteq> Waiting then L
      else case findIndex (\<lambda>p. id_p p = playerId) (players L) of
             None \<Rightarrow> L
           | Some i \<Rightarrow>
               if isConnected (players L ! i)
               then L\<lparr> players := (players L)
                      [i := (players L ! i)\<lparr> isReady := \<not> isReady (players L ! i) \<rparr>] \<rparr>
               else L)"

subsection \<open>\<^verbatim>\<open>lobby:join\<close>\<close>

text \<open>
  What the handler of \<^verbatim>\<open>lobby:join\<close> does to the lobby that the code names, for the player
  \<open>playerId\<close> whose name in the registry is \<open>playerName\<close>. During a game only a player of
  the roster comes back: the one with this id or, failing that, the first disconnected
  one with this name, who is given the id. Otherwise a seated player is marked
  connected, and a new one is added. (An emitted error leaves the lobby as it was.)
\<close>

definition lobbyJoin ::
  "int \<Rightarrow> jsstring \<Rightarrow> jsstring \<Rightarrow> string \<Rightarrow> jsstring \<Rightarrow> lobby \<Rightarrow> lobby" where
  "lobbyJoin now av col playerId playerName L =
     (if state L = Playing
      then
        (case findIndex (\<lambda>p. id_p p = playerId) (players L) of
           Some i \<Rightarrow> L\<lparr> players := (players L)
               [i := (players L ! i)\<lparr> isConnected := True, disconnectedAt := None \<rparr>] \<rparr>
         | None \<Rightarrow>
             (case findIndex (\<lambda>p. name_p p = playerName \<and> \<not> isConnected p) (players L) of
                Some i \<Rightarrow> L\<lparr> players := (players L)
                    [i := (players L ! i)\<lparr> id_p := playerId, isConnected := True,
                                             disconnectedAt := None \<rparr>] \<rparr>
              | None \<Rightarrow> L))
      else
        (case findIndex (\<lambda>p. id_p p = playerId) (players L) of
           Some i \<Rightarrow> L\<lparr> players := (players L)[i := (players L ! i)\<lparr> isConnected := True \<rparr>] \<rparr>
         | None \<Rightarrow> snd (addPlayer now av col playerId (JString playerName) L)))"

subsection \<open>\<^verbatim>\<open>lobby:create\<close>\<close>

text \<open>
  The registry \<^verbatim>\<open>lobbies\<close> is a \<^verbatim>\<open>Map\<close> from the lobby's id to the lobby, in insertion
  order. \<^verbatim>\<open>lobbies.set(id, lobby)\<close>:
\<close>

fun lobbiesSet :: "string \<Rightarrow> lobby \<Rightarrow> (string \<times> lobby) list \<Rightarrow> (string \<times> lobby) list" where
  "lobbiesSet k v [] = [(k, v)]"
| "lobbiesSet k v ((k', v') # rest) =
     (if k' = k then (k, v) # rest else (k', v') # lobbiesSet k v rest)"

text \<open>
  What the handler of \<^verbatim>\<open>lobby:create\<close> does to the registry: it constructs the lobby,
  seats its creator and registers it under its id. (The rate limit, the identity of the
  player and the departure from an earlier lobby are left out.)
\<close>

definition lobbyCreate ::
  "string \<Rightarrow> (nat \<Rightarrow> real) \<Rightarrow> int \<Rightarrow> jsstring \<Rightarrow> jsstring \<Rightarrow> string \<Rightarrow> jsval \<Rightarrow> jsval \<Rightarrow> bool
     \<Rightarrow> (string \<times> lobby) list \<Rightarrow> (string \<times> lobby) list" where
  "lobbyCreate uuid rnd now av col playerId playerName lobbyName public lobbies =
     (let created = newLobby uuid rnd now playerId playerName lobbyName public;
          seated = snd (addPlayer now av col playerId playerName created)
      in lobbiesSet uuid seated lobbies)"

text \<open>The codes of the lobbies of the registry are pairwise different.\<close>

definition codesUnique :: "(string \<times> lobby) list \<Rightarrow> bool" where
  "codesUnique lobbies = distinct (map (\<lambda>(k, l). code l) lobbies)"

section \<open>The lobby as a transition system\<close>

text \<open>
  The callback at position \<open>k\<close> of the timeout queue runs (and leaves the queue); \<open>syl\<close>
  and \<open>now\<close> are the syllable it draws and the clock it reads.
\<close>

definition fireDeferred :: "nat \<Rightarrow> jsstring \<Rightarrow> int \<Rightarrow> lobby \<Rightarrow> lobby" where
  "fireDeferred k syl now L =
     (if k < length (pending L)
      then
        let L' = L\<lparr> pending := take k (pending L) @ drop (Suc k) (pending L) \<rparr>
        in case pending L ! k of
             AdvanceAfterWord \<Rightarrow> advanceAfterWord syl now L'
           | AfterExplosion alive \<Rightarrow> afterExplosion alive syl now L'
           | ResetAfterEnd \<Rightarrow> resetAfterEnd L'
      else L)"

text \<open>The events of a lobby: the calls of its methods by the handlers, and its callbacks.\<close>

datatype event =
    EvAddPlayer int jsstring jsstring string jsval
  | EvRemovePlayer int string
  | EvMarkDisconnected int string
  | EvMarkConnected string
  | EvReady string
  | EvSettings string settingsRequest
  | EvStart jsstring int string
  | EvSubmit int string jsval
  | EvTick
  | EvAfkCheck int
  | EvFire nat jsstring int
  | EvJoin int jsstring jsstring string jsstring
  | EvTyping int string jsval
  | EvDestroy

fun applyEvent ::
  "(jsstring \<Rightarrow> jsstring) \<Rightarrow> jsstring list \<Rightarrow> (jsstring \<Rightarrow> jsnum) \<Rightarrow> lobby \<Rightarrow> event \<Rightarrow> lobby" where
  "applyEvent lc W sn L (EvAddPlayer now av col playerId playerName) =
     snd (addPlayer now av col playerId playerName L)"
| "applyEvent lc W sn L (EvRemovePlayer now playerId) = removePlayer now playerId L"
| "applyEvent lc W sn L (EvMarkDisconnected now playerId) = markDisconnected now playerId L"
| "applyEvent lc W sn L (EvMarkConnected playerId) = markConnected playerId L"
| "applyEvent lc W sn L (EvReady playerId) = gameReady playerId L"
| "applyEvent lc W sn L (EvSettings playerId req) = lobbySettings sn playerId req L"
| "applyEvent lc W sn L (EvStart syl now playerId) = snd (gameStart syl now playerId L)"
| "applyEvent lc W sn L (EvSubmit now playerId word) = snd (submitWord lc W now playerId word L)"
| "applyEvent lc W sn L EvTick = timerTick L"
| "applyEvent lc W sn L (EvAfkCheck now) = afkCheck now L"
| "applyEvent lc W sn L (EvFire k syl now) = fireDeferred k syl now L"
| "applyEvent lc W sn L (EvJoin now av col playerId playerName) =
     lobbyJoin now av col playerId playerName L"
| "applyEvent lc W sn L (EvTyping now playerId text) = updateTyping now playerId text L"
| "applyEvent lc W sn L EvDestroy = destroy L"

definition run ::
  "(jsstring \<Rightarrow> jsstring) \<Rightarrow> jsstring list \<Rightarrow> (jsstring \<Rightarrow> jsnum) \<Rightarrow> lobby \<Rightarrow> event list \<Rightarrow> lobby" where
  "run lc W sn L evs = foldl (applyEvent lc W sn) L evs"

text \<open>The events that can call \<^verbatim>\<open>nextTurn\<close>: a start of the game and a callback.\<close>

fun callsNextTurn :: "event \<Rightarrow> bool" where
  "callsNextTurn (EvStart syl now playerId) = True"
| "callsNextTurn (EvFire k syl now) = True"
| "callsNextTurn ev = False"

text \<open>
  The invariant of the turn pointer: during a game the roster is not empty and
  \<open>currentTurnIndex\<close> is an index into it.
\<close>

definition turnIndexOk :: "lobby \<Rightarrow> bool" where
  "turnIndexOk L =
     (state L = Playing \<longrightarrow>
        (case currentTurnIndex L of None \<Rightarrow> False | Some i \<Rightarrow> i < length (players L)))"

section \<open>Concrete data\<close>

text \<open>
  A case mapping, a dictionary and lobbies on which the functions are evaluated. The
  mapping lowers the letters A to Z and keeps every other code unit.
\<close>

definition asciiLower :: "jsstring \<Rightarrow> jsstring" where
  "asciiLower s = map (\<lambda>c. if 65 \<le> c \<and> c \<le> 90 then c + 32 else c) s"

definition exWords :: "jsstring list" where
  "exWords = [str ''banana'', str ''bandit'', str ''cab'']"

definition exPlayer :: "string \<Rightarrow> jsstring \<Rightarrow> bool \<Rightarrow> player" where
  "exPlayer playerId playerName ready =
     \<lparr> id_p = playerId, name_p = playerName, avatar = [], color = [], lives = Num 3,
       isConnected = True, isReady = ready, currentInput = [], joinedAt = 0,
       score = Some (Num 0), wordsCompleted = Some (Num 0), disconnectedAt = None \<rparr>"

definition exSettings :: settings where
  "exSettings = \<lparr> maxPlayers = Num 8, startLives = Num 3, turnTime = Num 10,
                  minWordLength = Num 2, isPublic = True \<rparr>"

text \<open>A game of two players; it is the turn of \<open>p1\<close>, with five of ten seconds left.\<close>

definition exLobby :: lobby where
  "exLobby =
     \<lparr> id_l = ''lobby-1'', code = ''ABCDEF'', name_l = str ''Room'',
       hostId = ''p1'', originalHostId = ''p1'',
       players = [exPlayer ''p1'' (str ''Ann'') True, exPlayer ''p2'' (str ''Bob'') True],
       state = Playing, settings = exSettings,
       currentTurnIndex = Some 0, currentSyllable = str ''an'', usedWords = {},
       timer = True, timerValue = Num 5, lastActivity = 0, turnStartTime = 0,
       turnLocked = False, afkCheckInterval = True, pending = [] \<rparr>"

text \<open>A waiting lobby of three players, of whom \<open>p3\<close> is not ready; \<open>p1\<close> is the host.\<close>

definition exWaiting :: lobby where
  "exWaiting =
     exLobby \<lparr> players := [exPlayer ''p1'' (str ''Ann'') True, exPlayer ''p2'' (str ''Bob'') True,
                           exPlayer ''p3'' (str ''Cid'') False],
              state := Waiting, timer := False, currentSyllable := [] \<rparr>"

text \<open>A lobby whose two seats are both taken.\<close>

definition exFull :: lobby where
  "exFull = exWaiting \<lparr> players := [exPlayer ''p1'' (str ''Ann'') True,
                                    exPlayer ''p2'' (str ''Bob'') True],
                       settings := exSettings \<lparr> maxPlayers := Num 2 \<rparr> \<rparr>"

text \<open>A game of the three players in which it is the turn of the last one, \<open>p3\<close>.\<close>

definition exGame3 :: lobby where
  "exGame3 = exWaiting \<lparr> state := Playing, currentTurnIndex := Some 2,
                        currentSyllable := str ''an'', timer := True \<rparr>"

text \<open>The events from the creation of a lobby to the start of a game of two players.\<close>

definition exEvents :: "event list" where
  "exEvents =
     [EvAddPlayer 1 [] [] ''p1'' (JString (str ''Ann'')),
      EvJoin 2 [] [] ''p2'' (str ''Bob''),
      EvReady ''p1'',
      EvReady ''p2'',
      EvStart (str ''an'') 9 ''p1'']"

text \<open>A payload of \<^verbatim>\<open>lobby:settings\<close> without any field.\<close>

definition emptyRequest :: settingsRequest where
  "emptyRequest = \<lparr> reqMaxPlayers = JUndefined, reqStartLives = JUndefined,
                    reqTurnTime = JUndefined, reqMinWordLength = JUndefined,
                    reqIsPublic = JUndefined \<rparr>"

text \<open>The glyphs that are easily taken for one another.\<close>

definition ambiguousGlyphs :: string where
  "ambiguousGlyphs = ''IO01''"

text \<open>
  A game in which the turn time is the double \<open>8.333333333333336\<close> and the timer value the
  double \<open>7.083333333333335\<close>, which 25 ticks of the timer lead to.
\<close>

definition exTie :: lobby where
  "exTie = exLobby \<lparr> settings := exSettings \<lparr> turnTime := Num (1172812402961067 / 140737488355328) \<rparr>,
                     timerValue := Num (7975124340135255 / 1125899906842624) \<rparr>"

text \<open>
  The events of \<open>exEvents\<close>, with the host sending the settings \<^verbatim>\<open>{minWordLength: {}}\<close> before
  the game starts.
\<close>

definition exEventsNaN :: "event list" where
  "exEventsNaN =
     [EvAddPlayer 1 [] [] ''p1'' (JString (str ''Ann'')),
      EvJoin 2 [] [] ''p2'' (str ''Bob''),
      EvSettings ''p1'' (emptyRequest \<lparr> reqMinWordLength := JObject \<rparr>),
      EvReady ''p1'',
      EvReady ''p2'',
      EvStart (str ''an'') 9 ''p1'']"

definition exNaN :: lobby where
  "exNaN = run asciiLower exWords (\<lambda>s. NaN)
     (newLobby ''u1'' (\<lambda>i. 0) 0 ''p1'' (JString (str ''Ann'')) (JString (str ''Room'')) True)
     exEventsNaN"

text \<open>
  The players that \<^verbatim>\<open>startGame\<close> keeps (its constant \<^verbatim>\<open>readyPlayers\<close>) and what its
  \<^verbatim>\<open>forEach\<close> assigns to each of them.
\<close>

definition readyPlayers :: "lobby \<Rightarrow> player list" where
  "readyPlayers L = filter (\<lambda>p. isReady p \<and> isConnected p) (players L)"

definition resetForGame :: "lobby \<Rightarrow> player \<Rightarrow> player" where
  "resetForGame L p = p\<lparr> lives := startLives (settings L), currentInput := [],
                         score := Some (Num 0), wordsCompleted := Some (Num 0) \<rparr>"

section \<open>The statements of the specification\<close>

text \<open>The normalized word of a submission: sanitized, then lower-cased.\<close>

definition normalizedWord :: "(jsstring \<Rightarrow> jsstring) \<Rightarrow> jsval \<Rightarrow> jsstring" where
  "normalizedWord lc word = lc (sanitizeText word 50)"

text \<open>
  The score of the specification for a word of length \<open>l\<close> with \<open>t\<close> seconds remaining
  out of \<open>m\<close>: \<open>10 l + round (50 t / m) + max 0 ((l - 5) 5)\<close>.
\<close>

definition specScore :: "nat \<Rightarrow> real \<Rightarrow> real \<Rightarrow> int" where
  "specScore l t m = 10 * int l + round (50 * t / m) + max 0 ((int l - 5) * 5)"

text \<open>
  The score with the speed bonus taken from the product \<open>q\<close> that the code has computed:
  \<open>10 l + round q + max 0 ((l - 5) 5)\<close>, a tie rounded up.
\<close>

definition roundedScore :: "nat \<Rightarrow> real \<Rightarrow> int" where
  "roundedScore l q = 10 * int l + \<lfloor>q + 1 / 2\<rfloor> + max 0 ((int l - 5) * 5)"

section \<open>Properties of the rate limiter\<close>

lemma shiftOld_dropWhile: "shiftOld cutoff ts = dropWhile (\<lambda>t. t < cutoff) ts"
  by (induction ts) auto

lemma shiftOld_keeps_window:
  "filter (\<lambda>t. cutoff \<le> t) (shiftOld cutoff ts) = filter (\<lambda>t. cutoff \<le> t) ts"
  by (induction ts) auto

lemma shiftOld_length: "length (shiftOld cutoff ts) \<le> length ts"
  by (induction ts) auto

lemma shiftOld_all_recent:
  "length (filter (\<lambda>t. cutoff \<le> t) ts) = length ts \<Longrightarrow> shiftOld cutoff ts = ts"
proof (cases ts)
  case Nil
  then show ?thesis by simp
next
  case (Cons t ts')
  assume full: "length (filter (\<lambda>x. cutoff \<le> x) ts) = length ts"
  have "cutoff \<le> t"
  proof (rule ccontr)
    assume "\<not> cutoff \<le> t"
    with Cons full have "length (filter (\<lambda>x. cutoff \<le> x) ts') = Suc (length ts')"
      by simp
    moreover have "length (filter (\<lambda>x. cutoff \<le> x) ts') \<le> length ts'"
      by (rule length_filter_le)
    ultimately show False by simp
  qed
  with Cons show ?thesis by simp
qed

text \<open>
  C8. Let a key hold the timestamps \<open>ts\<close> of its accepted attempts, at most the cap \<open>N\<close> of
  them (the limiter never stores more). An attempt that arrives while \<open>N\<close> recorded
  timestamps lie within the trailing window is rejected and leaves the whole map as it
  was: no timestamp is appended. Once the window has slid past the oldest recorded
  timestamp (the head of the array: \<open>hd ts < now - W\<close>), an attempt is accepted and its
  timestamp \<open>now\<close> is appended behind the timestamps that were kept.
\<close>

theorem isRateLimited_sliding_window:
  assumes "rl (rateKey sid ev) = Some ts" and "length ts \<le> N"
  shows "(N \<le> length (inWindow W now ts) \<longrightarrow>
            isRateLimited sid ev N W now rl = (True, rl))
       \<and> (0 < N \<and> ts \<noteq> [] \<and> hd ts < now - W \<longrightarrow>
            isRateLimited sid ev N W now rl
              = (False, rl(rateKey sid ev \<mapsto> shiftOld (now - W) ts @ [now])))"
proof (intro conjI impI)
  assume full: "N \<le> length (inWindow W now ts)"
  have "length (inWindow W now ts) \<le> length ts"
    unfolding inWindow_def by (rule length_filter_le)
  with full assms(2) have len: "length (inWindow W now ts) = length ts" and n: "length ts = N"
    by simp_all
  from len have keep: "shiftOld (now - W) ts = ts"
    unfolding inWindow_def by (rule shiftOld_all_recent)
  have "rl(rateKey sid ev \<mapsto> ts) = rl"
    using assms(1) by (simp add: fun_upd_idem)
  with keep n assms(1) show "isRateLimited sid ev N W now rl = (True, rl)"
    by (simp add: isRateLimited_def Let_def)
next
  assume slid: "0 < N \<and> ts \<noteq> [] \<and> hd ts < now - W"
  then obtain t ts' where ts: "ts = t # ts'" and old: "t < now - W"
    by (cases ts) auto
  have "length (shiftOld (now - W) ts) \<le> length ts'"
    using ts old by (simp add: shiftOld_length)
  with ts assms(2) have "length (shiftOld (now - W) ts) < N"
    by simp
  with assms(1) show "isRateLimited sid ev N W now rl
      = (False, rl(rateKey sid ev \<mapsto> shiftOld (now - W) ts @ [now]))"
    by (simp add: isRateLimited_def Let_def)
qed

theorem isRateLimited_sliding_window_witness:
  "isRateLimited ''s1'' ''submit'' 2 1000 5500 [rateKey ''s1'' ''submit'' \<mapsto> [5000, 5400]]
     = (True, [rateKey ''s1'' ''submit'' \<mapsto> [5000, 5400]])
   \<and> isRateLimited ''s1'' ''submit'' 2 1000 6100 [rateKey ''s1'' ''submit'' \<mapsto> [5000, 5400]]
     = (False, [rateKey ''s1'' ''submit'' \<mapsto> [5400, 6100]])"
  using isRateLimited_sliding_window
          [of "[rateKey ''s1'' ''submit'' \<mapsto> [5000, 5400]]" "''s1''" "''submit''"
              "[5000, 5400]" 2 1000 5500]
        isRateLimited_sliding_window
          [of "[rateKey ''s1'' ''submit'' \<mapsto> [5000, 5400]]" "''s1''" "''submit''"
              "[5000, 5400]" 2 1000 6100]
  by (simp add: inWindow_def)

section \<open>Evaluation on the concrete data\<close>

lemmas ex_defs = exLobby_def exPlayer_def exSettings_def exWords_def asciiLower_def str_def
  exWaiting_def exFull_def exGame3_def

lemmas san_defs = removeDangerous_def dangerousChar_def trim_def whiteSpace_def
  removeControl_def

section \<open>Doubles\<close>

lemmas dbl_defs = toDouble_def ulpExponent_def floorLog2_def roundEven_def bitLength.simps
  Let_def

lemma bitLength_bounds:
  "0 < n \<Longrightarrow> 2 ^ (bitLength n - 1) \<le> n \<and> n < 2 ^ bitLength n"
proof (induction n rule: bitLength.induct)
  case (1 n)
  show ?case
  proof (cases "n div 2 = 0")
    case True
    with "1.prems" have "n = 1" by (auto simp: div_eq_0_iff)
    then show ?thesis by (simp add: bitLength.simps)
  next
    case False
    then have pos: "0 < n div 2" by simp
    from "1.prems" have n: "n \<noteq> 0" by simp
    from "1.IH" [OF n pos]
    have lo: "2 ^ (bitLength (n div 2) - 1) \<le> n div 2"
      and hi: "n div 2 < 2 ^ bitLength (n div 2)"
      by simp_all
    have b: "bitLength n = Suc (bitLength (n div 2))"
      using n by (subst bitLength.simps) simp
    have bpos: "0 < bitLength (n div 2)"
      using pos by (subst bitLength.simps) simp
    then have split: "2 ^ bitLength (n div 2) = 2 * 2 ^ (bitLength (n div 2) - 1)"
      by (cases "bitLength (n div 2)") simp_all
    have "2 * (n div 2) \<le> n" by simp
    with lo have l: "2 ^ bitLength (n div 2) \<le> n"
      unfolding split by linarith
    have "n < 2 * (n div 2) + 2" by (simp add: less_mult_imp_div_less)
    with hi have h: "n < 2 * 2 ^ bitLength (n div 2)" by linarith
    from l h show ?thesis
      by (simp add: b)
  qed
qed

lemma roundEven_of_int: "roundEven (of_int j) = j"
  by (simp add: roundEven_def)

text \<open>An integer below \<open>2^53\<close> in magnitude is a double: rounding keeps it.\<close>

lemma toDouble_of_int:
  assumes "\<bar>k\<bar> < 2 ^ 53"
  shows "toDouble (of_int k) = Num (of_int k)"
proof (cases "k = 0")
  case True
  then show ?thesis by (simp add: toDouble_def)
next
  case False
  define n where "n = nat \<bar>k\<bar>"
  have npos: "0 < n" using False by (simp add: n_def)
  have nk: "int n = \<bar>k\<bar>" by (simp add: n_def)
  define b where "b = bitLength n"
  from bitLength_bounds [OF npos]
  have lo: "2 ^ (b - 1) \<le> n" and hi: "n < 2 ^ b"
    by (simp_all add: b_def)
  have "int n < 2 ^ 53"
    using assms nk by simp
  then have "n < 2 ^ 53"
    by simp
  with lo have "(2::nat) ^ (b - 1) < 2 ^ 53" by linarith
  then have "b - 1 < 53"
    using power_less_imp_less_exp [of "2::nat" "b - 1" 53] by simp
  then have b53: "b \<le> 53" by simp
  have bpos: "0 < b"
    using npos unfolding b_def by (subst bitLength.simps) simp
  have "1 \<le> \<bar>k\<bar>"
    using False by arith
  then have "(1::real) \<le> of_int \<bar>k\<bar>"
    by (simp only: of_int_1_le_iff)
  then have abs1: "1 \<le> \<bar>real_of_int k\<bar>"
    by simp
  have fl: "nat \<lfloor>\<bar>real_of_int k\<bar>\<rfloor> = n"
    by (simp add: n_def flip: of_int_abs)
  have e: "ulpExponent (of_int k) = - int (53 - b)"
    using b53 bpos abs1 by (simp add: ulpExponent_def floorLog2_def fl b_def [symmetric])
  have p: "(2::real) powi (- int (53 - b)) = 1 / 2 ^ (53 - b)"
    by (simp add: power_int_minus divide_simps)
  have q: "real_of_int k / (1 / 2 ^ (53 - b)) = of_int (k * 2 ^ (53 - b))"
    by simp
  have r: "real_of_int (k * 2 ^ (53 - b)) * (1 / 2 ^ (53 - b)) = of_int k"
    by simp
  have small: "\<not> 2 ^ 1024 \<le> \<bar>real_of_int k\<bar>"
  proof -
    have "real_of_int \<bar>k\<bar> < 2 ^ 53"
      using assms by (simp only: of_int_less_numeral_power_cancel_iff)
    then have "\<bar>real_of_int k\<bar> < 2 ^ 53"
      by simp
    also have "\<dots> \<le> (2::real) ^ 1024" by (rule power_increasing) simp_all
    finally show ?thesis by simp
  qed
  show ?thesis
    using False small
    unfolding toDouble_def Let_def e p q roundEven_of_int r
    by simp
qed

section \<open>Comparisons of JavaScript numbers\<close>

lemma not_js_lt_iff_ge: "m \<noteq> NaN \<Longrightarrow> (\<not> js_lt (Num a) m) = js_ge (Num a) m"
  by (cases m) (auto simp: js_ge_def)

lemma not_js_le_zero_iff_gt: "l \<noteq> NaN \<Longrightarrow> (\<not> js_le l (Num 0)) = js_gt l (Num 0)"
  by (cases l) (auto simp: js_gt_def)

lemma length_ge_two: "js_le (Num 2) m \<Longrightarrow> js_ge (Num (real n)) m \<Longrightarrow> 2 \<le> n"
  by (cases m) (auto simp: js_ge_def)

section \<open>Submissions\<close>

lemma validateWord_iff:
  "2 \<le> length w \<Longrightarrow>
   validateWord lc W w syl = (sublist (lc syl) (lc w) \<and> (\<exists>d\<in>set W. lc d = lc w))"
  by (auto simp: validateWord_def Let_def list_ex_iff)

text \<open>The checks of \<^verbatim>\<open>submitWord\<close>, as the code makes them.\<close>

lemma submitWord_success_code:
  "fst (submitWord lc W now pid word L) = Success \<longleftrightarrow>
     (state L = Playing \<and> \<not> turnLocked L
      \<and> (\<exists>p. currentPlayerOf L = Some p \<and> id_p p = pid \<and> \<not> js_le (lives p) (Num 0)
             \<and> isConnected p)
      \<and> (\<exists>w. word = JString w)
      \<and> \<not> js_lt (Num (real (length (normalizedWord lc word)))) (minWordLength (settings L))
      \<and> normalizedWord lc word \<notin> usedWords L
      \<and> validateWord lc W (normalizedWord lc word) (currentSyllable L))"
  by (cases word)
     (auto simp: submitWord_def currentPlayerOf_def normalizedWord_def Let_def
           split: option.splits if_splits)

text \<open>
  In a lobby whose \<open>minWordLength\<close> respects its lower bound \<open>2\<close> and whose players' lives
  are numbers, a submission is accepted if and only if the game is \<open>playing\<close>, the turn
  is not locked, the submitter is the player at \<open>currentTurnIndex\<close> and has lives \<open>> 0\<close>
  and is connected, the normalized word is at least \<open>minWordLength\<close> long, is not in
  \<open>usedWords\<close>, contains the syllable and is in the dictionary (both up to case, as the
  code compares lower-cased strings). The case mapping \<open>lc\<close> is any function that maps the
  empty string to itself.
\<close>

lemma submitWord_accepted_iff:
  assumes bound: "js_le (Num 2) (minWordLength (settings L))"
    and lives: "\<forall>p\<in>set (players L). lives p \<noteq> NaN"
    and empty: "lc [] = []"
  shows "fst (submitWord lc W now pid word L) = Success \<longleftrightarrow>
     (state L = Playing \<and> \<not> turnLocked L
      \<and> (\<exists>p. currentPlayerOf L = Some p \<and> id_p p = pid \<and> js_gt (lives p) (Num 0)
             \<and> isConnected p)
      \<and> js_ge (Num (real (length (normalizedWord lc word)))) (minWordLength (settings L))
      \<and> normalizedWord lc word \<notin> usedWords L
      \<and> sublist (lc (currentSyllable L)) (lc (normalizedWord lc word))
      \<and> (\<exists>d\<in>set W. lc d = lc (normalizedWord lc word)))"
    (is "?accepted \<longleftrightarrow> ?game \<and> ?locked \<and> ?active \<and> ?long \<and> ?fresh \<and> ?syl \<and> ?dict")
proof -
  have m: "minWordLength (settings L) \<noteq> NaN"
    using bound by (cases "minWordLength (settings L)") auto
  have active: "(\<exists>p. currentPlayerOf L = Some p \<and> id_p p = pid \<and> \<not> js_le (lives p) (Num 0)
             \<and> isConnected p) \<longleftrightarrow> ?active"
  proof (cases "currentPlayerOf L")
    case None
    then show ?thesis by simp
  next
    case (Some p)
    then have "p \<in> set (players L)"
      by (auto simp: currentPlayerOf_def split: option.splits if_splits)
    with lives have "lives p \<noteq> NaN" by blast
    then show ?thesis
      using Some by (simp add: not_js_le_zero_iff_gt)
  qed
  have long: "(\<not> js_lt (Num (real (length (normalizedWord lc word)))) (minWordLength (settings L)))
      \<longleftrightarrow> ?long"
    by (rule not_js_lt_iff_ge [OF m])
  have valid: "?long \<Longrightarrow>
      validateWord lc W (normalizedWord lc word) (currentSyllable L) \<longleftrightarrow> ?syl \<and> ?dict"
    using length_ge_two [OF bound] by (simp add: validateWord_iff)
  have string: "\<exists>w. word = JString w" if l: ?long
  proof (rule ccontr)
    assume "\<not> (\<exists>w. word = JString w)"
    then have "sanitizeText word 50 = []"
      by (cases word) auto
    with empty have "length (normalizedWord lc word) = 0"
      by (simp add: normalizedWord_def)
    with length_ge_two [OF bound, of 0] l show False by simp
  qed
  show ?thesis
    unfolding submitWord_success_code active long
    using valid string by blast
qed

lemma submitWord_accepted_iff_example:
  "fst (submitWord asciiLower exWords 1000 ''p1'' (JString (str ''Banana '')) exLobby) = Success
   \<and> fst (submitWord asciiLower exWords 1000 ''p1'' (JString (str ''cab'')) exLobby) \<noteq> Success"
proof -
  have b: "js_le (Num 2) (minWordLength (settings exLobby))"
    by (simp add: ex_defs)
  have l: "\<forall>p\<in>set (players exLobby). lives p \<noteq> NaN"
    by (simp add: ex_defs)
  have e: "asciiLower [] = []"
    by (simp add: ex_defs)
  have n1: "normalizedWord asciiLower (JString (str ''Banana '')) = str ''banana''"
    by (simp add: normalizedWord_def ex_defs san_defs)
  have n2: "normalizedWord asciiLower (JString (str ''cab'')) = str ''cab''"
    by (simp add: normalizedWord_def ex_defs san_defs)
  show ?thesis
    using submitWord_accepted_iff [where L = exLobby and lc = asciiLower and W = exWords
          and now = 1000 and pid = "''p1''" and word = "JString (str ''Banana '')", OF b l e]
      submitWord_accepted_iff [where L = exLobby and lc = asciiLower and W = exWords
          and now = 1000 and pid = "''p1''" and word = "JString (str ''cab'')", OF b l e]
    unfolding n1 n2
    by (simp add: ex_defs currentPlayerOf_def js_gt_def js_ge_def sublist_code)
qed

text \<open>
  The settings of a lobby come from the handler of \<^verbatim>\<open>lobby:settings\<close>, which takes any
  truthy value through \<^verbatim>\<open>Math.min\<close> and \<^verbatim>\<open>Math.max\<close>. In the game \<open>exNaN\<close> the host has sent
  \<^verbatim>\<open>{minWordLength: {}}\<close> before the start, and \<open>minWordLength\<close> is \<^verbatim>\<open>NaN\<close>.
\<close>

lemma exNaN_state:
  "state exNaN = Playing"
  "turnLocked exNaN = False"
  "currentTurnIndex exNaN = Some 0"
  "map id_p (players exNaN) = [''p1'', ''p2'']"
  "currentSyllable exNaN = str ''an''"
  "usedWords exNaN = {}"
  "minWordLength (settings exNaN) = NaN"
  by (simp_all add: exNaN_def exEventsNaN_def emptyRequest_def run_def newLobby_def
        addPlayer_def lobbyJoin_def lobbySettings_def clampSetting_def gameReady_def
        gameStart_def startGame_def nextTurn_def Let_def js_ge_def san_defs str_def)

text \<open>
  C1. The submission of \<open>banana\<close> by the active player of \<open>exNaN\<close> is accepted, although the
  length \<open>6\<close> of the normalized word is not \<open>\<ge> minWordLength\<close>: the code rejects a word
  when \<^verbatim>\<open>normalized.length < this.settings.minWordLength\<close>, which is false when
  \<open>minWordLength\<close> is \<^verbatim>\<open>NaN\<close>, as is \<open>6 \<ge>\<close> \<^verbatim>\<open>NaN\<close>.
\<close>

theorem submitWord_accepts_under_NaN:
  "minWordLength (settings exNaN) = NaN
   \<and> fst (submitWord asciiLower exWords 1000 ''p1'' (JString (str ''banana'')) exNaN) = Success
   \<and> length (normalizedWord asciiLower (JString (str ''banana''))) = 6
   \<and> js_ge (Num (real (length (normalizedWord asciiLower (JString (str ''banana''))))))
        (minWordLength (settings exNaN)) = False"
  by (simp add: exNaN_def exEventsNaN_def emptyRequest_def run_def newLobby_def
        addPlayer_def lobbyJoin_def lobbySettings_def clampSetting_def gameReady_def
        gameStart_def startGame_def nextTurn_def Let_def js_ge_def san_defs
        submitWord_def ex_defs validateWord_def sublist_code totalScore_def js_sub_def
        dbl_defs normalizedWord_def)

text \<open>
  C7. A submission that is not accepted returns a failure with its reason and the lobby
  as it was: no field of the lobby or of a player is assigned, and nothing is scheduled.
\<close>

theorem submitWord_rejection_no_mutation:
  "fst (submitWord lc W now pid word L) \<noteq> Success
   \<Longrightarrow> (\<exists>r. fst (submitWord lc W now pid word L) = Failure r)
       \<and> snd (submitWord lc W now pid word L) = L"
proof -
  assume rejected: "fst (submitWord lc W now pid word L) \<noteq> Success"
  then obtain r where r: "fst (submitWord lc W now pid word L) = Failure r"
    by (cases "fst (submitWord lc W now pid word L)") simp_all
  then have "snd (submitWord lc W now pid word L) = L"
    by (auto simp: submitWord_def Let_def split: option.splits jsval.splits if_splits)
  with r show ?thesis by blast
qed

theorem submitWord_rejection_no_mutation_witness:
  "fst (submitWord asciiLower exWords 1000 ''p2'' (JString (str ''banana'')) exLobby)
     = Failure NotYourTurn
   \<and> snd (submitWord asciiLower exWords 1000 ''p2'' (JString (str ''banana'')) exLobby) = exLobby"
proof -
  have h: "fst (submitWord asciiLower exWords 1000 ''p2'' (JString (str ''banana'')) exLobby)
      = Failure NotYourTurn"
    by (simp add: submitWord_def ex_defs Let_def)
  then have "fst (submitWord asciiLower exWords 1000 ''p2'' (JString (str ''banana'')) exLobby)
      \<noteq> Success"
    by simp
  from submitWord_rejection_no_mutation [OF this] h show ?thesis by simp
qed

section \<open>The score\<close>

lemma js_add_int:
  "\<bar>a + b\<bar> < 2 ^ 53 \<Longrightarrow> js_add (Num (of_int a)) (Num (of_int b)) = Num (of_int (a + b))"
  using toDouble_of_int [of "a + b"] by simp

lemma js_mul_int:
  "\<bar>a * b\<bar> < 2 ^ 53 \<Longrightarrow> js_mul (Num (of_int a)) (Num (of_int b)) = Num (of_int (a * b))"
  using toDouble_of_int [of "a * b"] by simp

lemma js_sub_int:
  "\<bar>a - b\<bar> < 2 ^ 53 \<Longrightarrow> js_sub (Num (of_int a)) (Num (of_int b)) = Num (of_int (a - b))"
  using toDouble_of_int [of "a - b"] by (simp add: js_sub_def)

lemma Math_max_int: "Math_max (Num 0) (Num (of_int a)) = Num (of_int (max 0 a))"
  by (simp add: max_def)

text \<open>
  The score that the code computes, when the quotient \<open>timeRemaining / turnTime\<close> rounds
  to the double \<open>d\<close> and the product \<open>d * 50\<close> to the double \<open>q\<close>.
\<close>

lemma totalScore_rounded:
  assumes t: "timerValue L = Num t" and m: "turnTime (settings L) = Num m" "m \<noteq> 0"
    and d: "toDouble (max 0 t / m) = Num d" and q: "toDouble (d * 50) = Num q"
    and q32: "\<bar>q\<bar> \<le> 2 ^ 32" and n32: "n \<le> 2 ^ 32"
  shows "totalScore n L = Num (of_int (roundedScore n q))"
proof -
  have n: "int n \<le> 2 ^ 32"
    using n32 by (metis of_nat_le_iff of_nat_numeral of_nat_power)
  have len: "Num (real n) = Num (of_int (int n))" by simp
  have ten: "Num 10 = Num (of_int 10)" and five: "Num 5 = Num (of_int 5)" by simp_all
  have tr: "Math_max (Num 0) (timerValue L) = Num (max 0 t)"
    using t by (simp add: max_def)
  have base: "js_mul (Num (real n)) (Num 10) = Num (of_int (10 * int n))"
    unfolding len ten using n by (subst js_mul_int) (simp_all add: abs_mult mult.commute)
  have speed: "Math_round (js_mul (js_div (Num (max 0 t)) (Num m)) (Num 50))
      = Num (of_int \<lfloor>q + 1 / 2\<rfloor>)"
    using m(2) by (simp add: d q)
  have r: "\<bar>\<lfloor>q + 1 / 2\<rfloor>\<bar> \<le> 2 ^ 32 + 1"
  proof -
    have "- (2 ^ 32) \<le> q" and "q \<le> 2 ^ 32" using q32 by (simp_all add: abs_le_iff)
    then have "- (2 ^ 32) \<le> \<lfloor>q + 1 / 2\<rfloor>" and "\<lfloor>q + 1 / 2\<rfloor> \<le> 2 ^ 32 + 1"
      by (simp_all add: le_floor_iff floor_le_iff)
    then show ?thesis by arith
  qed
  have diff: "js_sub (Num (real n)) (Num 5) = Num (of_int (int n - 5))"
    unfolding len five using n by (subst js_sub_int) simp_all
  have prod: "js_mul (Num (of_int (int n - 5))) (Num 5) = Num (of_int ((int n - 5) * 5))"
    unfolding five using n by (subst js_mul_int) (simp_all add: abs_mult)
  have bonus: "Math_max (Num 0) (js_mul (js_sub (Num (real n)) (Num 5)) (Num 5))
      = Num (of_int (max 0 ((int n - 5) * 5)))"
    unfolding diff prod by (rule Math_max_int)
  have b: "\<bar>max 0 ((int n - 5) * 5)\<bar> \<le> 5 * 2 ^ 32"
    using n by (simp add: max_def)
  have sum1: "js_add (Num (of_int (10 * int n))) (Num (of_int \<lfloor>q + 1 / 2\<rfloor>))
      = Num (of_int (10 * int n + \<lfloor>q + 1 / 2\<rfloor>))"
    using n r by (subst js_add_int) simp_all
  have sum2: "js_add (Num (of_int (10 * int n + \<lfloor>q + 1 / 2\<rfloor>)))
        (Num (of_int (max 0 ((int n - 5) * 5))))
      = Num (of_int (10 * int n + \<lfloor>q + 1 / 2\<rfloor> + max 0 ((int n - 5) * 5)))"
    using n r b by (subst js_add_int) simp_all
  show ?thesis
    unfolding totalScore_def Let_def tr m(1) base speed bonus sum1 sum2 roundedScore_def
    by simp
qed

lemma submitWord_success_players:
  assumes "submitWord lc W now pid word L = (Success, L')"
  shows "\<exists>i. currentTurnIndex L = Some i \<and> i < length (players L) \<and> id_p (players L ! i) = pid
     \<and> players L' = (players L)[i := (players L ! i)
         \<lparr> currentInput := [],
           score := Some (js_add (orZero (score (players L ! i)))
                            (totalScore (length (lc (sanitizeText word 50))) L)),
           wordsCompleted := Some (js_add (orZero (wordsCompleted (players L ! i))) (Num 1)) \<rparr>]"
  using assms
  by (auto simp: submitWord_def Let_def split: option.splits jsval.splits if_splits)

text \<open>
  C4 (as amended). A word of at most \<open>2^32\<close> code units is accepted while \<open>timerValue\<close> is
  the number \<open>t\<close> and \<open>turnTime\<close> the number \<open>m \<noteq> 0\<close>; the quotient of the time remaining
  \<open>max 0 t\<close> by \<open>m\<close> rounds to the double \<open>d\<close>, and \<open>d * 50\<close> to the double \<open>q\<close>, of
  magnitude at most \<open>2^32\<close>. Then the score \<open>s\<close> of the player at \<open>currentTurnIndex\<close>
  becomes the double nearest to \<open>s\<close> plus \<open>10 l + round q + max 0 ((l - 5) 5)\<close>, where \<open>l\<close>
  is the length of the normalized word: the speed bonus rounds the product that the
  code has computed in doubles, not the exact \<open>50 t / m\<close>. In the concrete game (five of
  ten seconds left) the six letters of \<open>banana\<close> score \<open>90\<close>.
\<close>

theorem submitWord_score:
  assumes "submitWord lc W now pid word L = (Success, L')"
    and "currentTurnIndex L = Some i"
    and "timerValue L = Num t" and "turnTime (settings L) = Num m" and "m \<noteq> 0"
    and "toDouble (max 0 t / m) = Num d" and "toDouble (d * 50) = Num q"
    and "\<bar>q\<bar> \<le> 2 ^ 32" and "length (normalizedWord lc word) \<le> 2 ^ 32"
    and "score (players L ! i) = Some (Num s)"
  shows "score (players L' ! i)
     = Some (toDouble (s + of_int (roundedScore (length (normalizedWord lc word)) q)))"
proof -
  from submitWord_success_players [OF assms(1)] assms(2)
  have i: "i < length (players L)"
    and ps: "players L' = (players L)[i := (players L ! i)
         \<lparr> currentInput := [],
           score := Some (js_add (orZero (score (players L ! i)))
                            (totalScore (length (lc (sanitizeText word 50))) L)),
           wordsCompleted := Some (js_add (orZero (wordsCompleted (players L ! i))) (Num 1)) \<rparr>]"
    by auto
  have total: "totalScore (length (lc (sanitizeText word 50))) L
      = Num (of_int (roundedScore (length (normalizedWord lc word)) q))"
    using totalScore_rounded [OF assms(3,4,5,6,7,8)] assms(9)
    by (simp add: normalizedWord_def)
  show ?thesis
    using i by (simp add: ps assms(10) total)
qed

lemma exLobby_banana:
  "submitWord asciiLower exWords 1000 ''p1'' (JString (str ''banana'')) exLobby
   = (Success, exLobby \<lparr> usedWords := {str ''banana''},
        players := [(exPlayer ''p1'' (str ''Ann'') True)
                      \<lparr> score := Some (Num 90), wordsCompleted := Some (Num 1) \<rparr>,
                    exPlayer ''p2'' (str ''Bob'') True],
        lastActivity := 1000, timer := False, pending := [AdvanceAfterWord] \<rparr>)"
  by (simp add: submitWord_def ex_defs validateWord_def san_defs sublist_code Let_def
        totalScore_def js_sub_def dbl_defs)

theorem submitWord_score_witness:
  "roundedScore 6 25 = 90
   \<and> score (players (snd (submitWord asciiLower exWords 1000 ''p1'' (JString (str ''banana''))
                            exLobby)) ! 0) = Some (Num 90)"
proof -
  let ?r = "submitWord asciiLower exWords 1000 ''p1'' (JString (str ''banana'')) exLobby"
  have ok: "?r = (Success, snd ?r)"
    by (simp add: exLobby_banana)
  have len: "length (normalizedWord asciiLower (JString (str ''banana''))) = 6"
    by (simp add: normalizedWord_def ex_defs san_defs)
  have s: "roundedScore 6 25 = 90"
    by (simp add: roundedScore_def)
  have i: "currentTurnIndex exLobby = Some 0"
    and t: "timerValue exLobby = Num 5"
    and m: "turnTime (settings exLobby) = Num 10" "(10::real) \<noteq> 0"
    and old: "score (players exLobby ! 0) = Some (Num 0)"
    by (simp_all add: ex_defs)
  have d: "toDouble (max 0 5 / 10) = Num (1 / 2)"
    by (simp add: dbl_defs)
  have q: "toDouble (1 / 2 * 50) = Num 25"
    by (simp add: dbl_defs)
  have q32: "\<bar>25::real\<bar> \<le> 2 ^ 32"
    by simp
  have l32: "length (normalizedWord asciiLower (JString (str ''banana''))) \<le> 2 ^ 32"
    by (simp add: len)
  have ninety: "toDouble (0 + of_int 90) = Num 90"
    by (simp add: dbl_defs)
  from submitWord_score [OF ok i t m d q q32 l32 old]
  show ?thesis
    unfolding len s ninety using s by simp
qed

text \<open>
  The claim as stated fails where the rounding of the doubles decides a tie. In the game
  \<open>exTie\<close> the turn time is the double \<open>8.333333333333336\<close>, which the host has sent
  as \<^verbatim>\<open>turnTime\<close>, and, after 25 ticks, the timer
  value is the double \<open>7.083333333333335\<close>. Their quotient rounds to the double nearest
  to \<open>0.85\<close>, whose product with \<open>50\<close> rounds to \<open>42.5\<close>, which \<^verbatim>\<open>Math.round\<close> takes to \<open>43\<close>:
  the six letters of \<open>banana\<close> score \<open>108\<close>. The exact \<open>50 t / m\<close> lies below \<open>42.5\<close>, and
  the formula of the claim gives \<open>107\<close>.
\<close>

lemma exTie_settings:
  "settings (lobbySettings sn ''p1''
      (emptyRequest \<lparr> reqTurnTime := JNumber (Num (1172812402961067 / 140737488355328)) \<rparr>)
      exLobby) = settings exTie"
  by (simp add: lobbySettings_def clampSetting_def emptyRequest_def exTie_def ex_defs)

lemma funpow_25:
  "(f ^^ 25) x = f (f (f (f (f (f (f (f (f (f (f (f (f (f (f (f (f (f (f (f (f (f (f (f (f (x)))))))))))))))))))))))))"
  by (simp add: eval_nat_numeral)

lemma exTie_ticks:
  "(timerTick ^^ 25) (exTie \<lparr> timerValue := turnTime (settings exTie) \<rparr>) = exTie"
  unfolding funpow_25 by (simp add: timerTick_def exTie_def ex_defs js_sub_def dbl_defs)

theorem rounded_product_counterexample:
  "turnTime (settings exTie) = Num (1172812402961067 / 140737488355328)
   \<and> timerValue exTie = Num (7975124340135255 / 1125899906842624)
   \<and> score (players exTie ! 0) = Some (Num 0)
   \<and> fst (submitWord asciiLower exWords 1000 ''p1'' (JString (str ''banana'')) exTie) = Success
   \<and> length (normalizedWord asciiLower (JString (str ''banana''))) = 6
   \<and> score (players (snd (submitWord asciiLower exWords 1000 ''p1'' (JString (str ''banana''))
                            exTie)) ! 0) = Some (Num 108)
   \<and> specScore 6 (7975124340135255 / 1125899906842624) (1172812402961067 / 140737488355328)
       = 107"
  by (simp add: submitWord_def exTie_def ex_defs validateWord_def san_defs sublist_code Let_def
        totalScore_def js_sub_def dbl_defs specScore_def normalizedWord_def round_def)

text \<open>
  When \<open>turnTime\<close> is \<^verbatim>\<open>NaN\<close>, which the handler of \<^verbatim>\<open>lobby:settings\<close> lets through, the score
  of an accepted word is \<^verbatim>\<open>NaN\<close>, and so is the player's total.
\<close>

lemma totalScore_NaN:
  assumes "turnTime (settings L) = NaN"
  shows "totalScore n L = NaN"
proof -
  have d: "js_div x NaN = NaN" for x by (cases x) simp_all
  have m: "js_mul NaN x = NaN" for x by (cases x) simp_all
  have a: "js_add x NaN = NaN" for x by (cases x) simp_all
  have b: "js_add NaN x = NaN" for x by (cases x) simp_all
  show ?thesis
    by (simp add: totalScore_def Let_def assms d m a b)
qed

lemma submitWord_score_NaN:
  assumes "submitWord lc W now pid word L = (Success, L')"
    and "currentTurnIndex L = Some i"
    and "turnTime (settings L) = NaN"
  shows "score (players L' ! i) = Some NaN"
proof -
  from submitWord_success_players [OF assms(1)] assms(2)
  have i: "i < length (players L)"
    and ps: "players L' = (players L)[i := (players L ! i)
         \<lparr> currentInput := [],
           score := Some (js_add (orZero (score (players L ! i)))
                            (totalScore (length (lc (sanitizeText word 50))) L)),
           wordsCompleted := Some (js_add (orZero (wordsCompleted (players L ! i))) (Num 1)) \<rparr>]"
    by auto
  have a: "js_add x NaN = NaN" for x by (cases x) simp_all
  show ?thesis
    using i by (simp add: ps totalScore_NaN [OF assms(3)] a)
qed

section \<open>The roster\<close>

text \<open>
  C10 (as amended). For a player who is already seated, \<^verbatim>\<open>addPlayer\<close> leaves the lobby
  unchanged; it returns true exactly when the roster is below \<open>maxPlayers\<close>, because the
  capacity check precedes the search for the seat.
\<close>

theorem addPlayer_seated:
  assumes "find (\<lambda>p. id_p p = playerId) (players L) \<noteq> None"
  shows "snd (addPlayer now av col playerId playerName L) = L
       \<and> (fst (addPlayer now av col playerId playerName L)
            \<longleftrightarrow> \<not> js_ge (Num (real (length (players L)))) (maxPlayers (settings L)))"
  using assms by (simp add: addPlayer_def)

theorem addPlayer_seated_witness:
  "addPlayer 7 [] [] ''p2'' (JString (str ''Bob'')) exWaiting = (True, exWaiting)"
proof -
  have h: "find (\<lambda>p. id_p p = ''p2'') (players exWaiting) \<noteq> None"
    by (simp add: ex_defs)
  have "\<not> js_ge (Num (real (length (players exWaiting)))) (maxPlayers (settings exWaiting))"
    by (simp add: ex_defs js_ge_def)
  with addPlayer_seated [OF h, of 7 "[]" "[]" "JString (str ''Bob'')"] show ?thesis
    by (simp add: prod_eq_iff)
qed

text \<open>
  The claim as stated fails on a full lobby: \<open>p2\<close> is seated in \<open>exFull\<close>, whose two
  seats are taken, and \<^verbatim>\<open>addPlayer\<close> returns false.
\<close>

theorem addPlayer_seated_full_counterexample:
  "find (\<lambda>p. id_p p = ''p2'') (players exFull) \<noteq> None
   \<and> fst (addPlayer 7 [] [] ''p2'' (JString (str ''Bob'')) exFull) = False"
  by (simp add: addPlayer_def ex_defs js_ge_def)

section \<open>Starting a game\<close>

lemma nextTurn_fields:
  "players (nextTurn syl now L) = players L"
  "state (nextTurn syl now L) = state L"
  "usedWords (nextTurn syl now L) = usedWords L"
  "settings (nextTurn syl now L) = settings L"
  "currentTurnIndex (nextTurn syl now L)
     = skipDead (length (players L)) (players L) (currentTurnIndex L)"
  "turnLocked (nextTurn syl now L) = False"
  "pending (nextTurn syl now L) = pending L"
  by (simp_all add: nextTurn_def)

lemma startGame_refused:
  "length (readyPlayers L) < 2 \<Longrightarrow> startGame syl now L = (False, L)"
  by (simp add: startGame_def readyPlayers_def)

lemma startGame_started:
  "2 \<le> length (readyPlayers L) \<Longrightarrow>
   startGame syl now L =
     (True, nextTurn syl now
        (L\<lparr> state := Playing, usedWords := {}, currentTurnIndex := Some 0,
            players := map (resetForGame L) (readyPlayers L) \<rparr>))"
proof -
  have reset: "resetForGame L = (\<lambda>p. p\<lparr> lives := startLives (settings L), currentInput := [],
      score := Some (Num 0), wordsCompleted := Some (Num 0) \<rparr>)"
    by (rule ext) (simp add: resetForGame_def)
  assume "2 \<le> length (readyPlayers L)"
  then show ?thesis
    by (simp add: startGame_def readyPlayers_def reset Let_def)
qed

lemma gameStart_cases:
  "gameStart syl now pid L =
     (if hostId L \<noteq> pid then (Inl OnlyHostCanStart, L)
      else if length (players L) < 2 then (Inl NeedAtLeastTwoPlayers, L)
      else if length (readyPlayers L) < 2 then (Inr False, L)
      else (Inr True, nextTurn syl now
        (L\<lparr> state := Playing, usedWords := {}, currentTurnIndex := Some 0,
            players := map (resetForGame L) (readyPlayers L) \<rparr>)))"
  by (simp add: gameStart_def startGame_refused startGame_started)

text \<open>
  What holds of C5: a game starts only for the host and with two players that are ready
  and connected; the roster of the game is made of exactly these players, reset; the
  words are forgotten.
\<close>

lemma gameStart_entry:
  assumes "fst (gameStart syl now pid L) = Inr True"
  shows "hostId L = pid \<and> 2 \<le> length (readyPlayers L)
     \<and> state (snd (gameStart syl now pid L)) = Playing
     \<and> usedWords (snd (gameStart syl now pid L)) = {}
     \<and> players (snd (gameStart syl now pid L)) = map (resetForGame L) (readyPlayers L)"
  using assms by (simp add: gameStart_cases nextTurn_fields split: if_splits)

lemma exWaiting_ready: "map id_p (readyPlayers exWaiting) = [''p1'', ''p2'']"
  by (simp add: readyPlayers_def exWaiting_def exPlayer_def)

text \<open>
  C5, where the code departs from it. The host \<open>p1\<close> starts the game in the waiting lobby
  of \<open>p1\<close>, \<open>p2\<close> (both ready) and \<open>p3\<close> (not ready). The game starts, and the roster of
  the lobby is \<open>p1\<close>, \<open>p2\<close>: the assignment \<^verbatim>\<open>this.players = readyPlayers\<close> has removed \<open>p3\<close>
  from the lobby, where the claim (and the comment above the assignment) keeps \<open>p3\<close> in
  it, unready.
\<close>

theorem gameStart_drops_unready:
  "fst (gameStart syl 50 ''p1'' exWaiting) = Inr True
   \<and> map id_p (players exWaiting) = [''p1'', ''p2'', ''p3'']
   \<and> map id_p (players (snd (gameStart syl 50 ''p1'' exWaiting))) = [''p1'', ''p2'']"
proof -
  have h: "hostId exWaiting = ''p1''"
    by (simp add: exWaiting_def exLobby_def)
  have all: "map id_p (players exWaiting) = [''p1'', ''p2'', ''p3'']"
    by (simp add: exWaiting_def exPlayer_def)
  then have three: "length (players exWaiting) = 3"
    using length_map [of id_p "players exWaiting"] by simp
  have two: "length (readyPlayers exWaiting) = 2"
    using exWaiting_ready length_map [of id_p "readyPlayers exWaiting"] by simp
  have "map id_p (map (resetForGame exWaiting) (readyPlayers exWaiting)) = [''p1'', ''p2'']"
    using exWaiting_ready by (simp add: resetForGame_def comp_def)
  with h all three two show ?thesis
    by (simp add: gameStart_cases nextTurn_fields)
qed

section \<open>Settings\<close>

lemma clampSetting_absent: "clampSetting sn lo hi JUndefined old = old"
  by (simp add: clampSetting_def)

lemma clampSetting_number:
  "lo \<le> hi \<Longrightarrow> inRange lo hi old \<Longrightarrow> inRange lo hi (clampSetting sn lo hi (JNumber (Num x)) old)"
  by (auto simp: clampSetting_def inRange_def)

lemma clampSetting_object: "clampSetting sn lo hi JObject old = NaN"
  by (simp add: clampSetting_def)

text \<open>
  What holds of C6: a request whose fields are absent or finite numbers keeps settings
  that are within the bounds within them.
\<close>

lemma lobbySettings_numbers:
  assumes "settingsInBounds (settings L)"
    and "reqMaxPlayers req \<in> {JUndefined} \<union> range (\<lambda>x. JNumber (Num x))"
    and "reqStartLives req \<in> {JUndefined} \<union> range (\<lambda>x. JNumber (Num x))"
    and "reqTurnTime req \<in> {JUndefined} \<union> range (\<lambda>x. JNumber (Num x))"
    and "reqMinWordLength req \<in> {JUndefined} \<union> range (\<lambda>x. JNumber (Num x))"
  shows "settingsInBounds (settings (lobbySettings sn pid req L))"
proof (cases "hostId L = pid")
  case False
  with assms(1) show ?thesis by (simp add: lobbySettings_def)
next
  case True
  have keep: "inRange lo hi (clampSetting sn lo hi v old)"
    if "lo \<le> hi" "inRange lo hi old" "v \<in> {JUndefined} \<union> range (\<lambda>x. JNumber (Num x))"
    for lo hi v old
    using that by (auto simp: clampSetting_absent clampSetting_number)
  from True assms show ?thesis
    by (simp add: lobbySettings_def Let_def settingsInBounds_def keep)
qed

text \<open>
  C6, where the code departs from it. The host of the waiting lobby, whose settings are
  within the bounds, sends \<^verbatim>\<open>{maxPlayers: {}}\<close>. The object is truthy and converts to NaN,
  which \<^verbatim>\<open>Math.max\<close> and \<^verbatim>\<open>Math.min\<close> hand on: \<open>maxPlayers\<close> becomes NaN and the settings
  leave the bounds.
\<close>

theorem lobbySettings_object_not_clamped:
  "hostId exWaiting = ''p1''
   \<and> settingsInBounds (settings exWaiting)
   \<and> maxPlayers (settings (lobbySettings sn ''p1'' (emptyRequest \<lparr> reqMaxPlayers := JObject \<rparr>)
        exWaiting)) = NaN
   \<and> \<not> settingsInBounds (settings (lobbySettings sn ''p1''
        (emptyRequest \<lparr> reqMaxPlayers := JObject \<rparr>) exWaiting))"
proof -
  have h: "hostId exWaiting = ''p1''"
    by (simp add: ex_defs)
  have b: "settingsInBounds (settings exWaiting)"
    by (simp add: ex_defs settingsInBounds_def inRange_def)
  have n: "maxPlayers (settings (lobbySettings sn ''p1''
      (emptyRequest \<lparr> reqMaxPlayers := JObject \<rparr>) exWaiting)) = NaN"
    by (simp add: lobbySettings_def h Let_def emptyRequest_def clampSetting_object)
  then have "\<not> settingsInBounds (settings (lobbySettings sn ''p1''
        (emptyRequest \<lparr> reqMaxPlayers := JObject \<rparr>) exWaiting))"
    by (simp add: settingsInBounds_def inRange_def)
  with h b n show ?thesis by simp
qed

section \<open>Lobby codes\<close>

lemma charAt_chars:
  assumes "0 \<le> r" "r < 1"
  shows "\<exists>c. charAt chars \<lfloor>r * real (length chars)\<rfloor> = [c] \<and> c \<in> set chars"
proof -
  have len: "length chars = 32" by (simp add: chars_def)
  have lo: "0 \<le> \<lfloor>r * 32\<rfloor>" using assms(1) by simp
  have hi: "\<lfloor>r * 32\<rfloor> < 32" using assms(2) by (simp add: floor_less_iff)
  from lo hi have "nat \<lfloor>r * 32\<rfloor> < 32"
    by linarith
  then have "nat \<lfloor>r * 32\<rfloor> < length chars"
    by (simp only: len)
  then have "chars ! nat \<lfloor>r * 32\<rfloor> \<in> set chars"
    by (rule nth_mem)
  with lo hi show ?thesis
    by (simp add: charAt_def len)
qed

lemma foldl_charAt:
  assumes "\<forall>i\<in>set js. 0 \<le> rnd i \<and> rnd i < 1"
  shows "length (foldl (\<lambda>code i. code @ charAt chars \<lfloor>rnd i * real (length chars)\<rfloor>) acc js)
           = length acc + length js
       \<and> set (foldl (\<lambda>code i. code @ charAt chars \<lfloor>rnd i * real (length chars)\<rfloor>) acc js)
           \<subseteq> set acc \<union> set chars"
  using assms
proof (induction js arbitrary: acc)
  case Nil
  then show ?case by simp
next
  case (Cons j js)
  then obtain c where c: "charAt chars \<lfloor>rnd j * real (length chars)\<rfloor> = [c]" "c \<in> set chars"
    using charAt_chars [of "rnd j"] by auto
  from Cons.prems have "\<forall>i\<in>set js. 0 \<le> rnd i \<and> rnd i < 1" by simp
  from Cons.IH [OF this, of "acc @ [c]"] c show ?case
    by auto
qed

lemma generateLobbyCode_six:
  assumes "\<forall>i<6. 0 \<le> rnd i \<and> rnd i < 1"
  shows "length (generateLobbyCode rnd) = 6 \<and> set (generateLobbyCode rnd) \<subseteq> set chars"
proof -
  from assms have "\<forall>i\<in>set [0..<6]. 0 \<le> rnd i \<and> rnd i < 1" by simp
  from foldl_charAt [OF this, of "[]"] show ?thesis
    by (simp add: generateLobbyCode_def)
qed

lemma chars_unambiguous: "set chars \<inter> set ambiguousGlyphs = {}"
  by (simp add: chars_def ambiguousGlyphs_def)

lemma map_of_lobbiesSet: "map_of (lobbiesSet k v ls) k = Some v"
  by (induction ls) auto

lemma code_seated:
  "code (snd (addPlayer now av col host hostName
       (newLobby uuid rnd now' host hostName lobbyName public))) = generateLobbyCode rnd"
proof -
  have c: "code (newLobby uuid rnd now' host hostName lobbyName public) = generateLobbyCode rnd"
    by (simp add: newLobby_def Let_def)
  show ?thesis
    unfolding addPlayer_def Let_def by (simp add: c)
qed

lemma code_half: "generateLobbyCode (\<lambda>i. 1 / 2) = ''SSSSSS''"
  by (simp add: generateLobbyCode_def chars_def charAt_def upt_rec)

text \<open>
  C9 (as amended). With random numbers in \<open>[0, 1)\<close>, the code of a new lobby has six
  characters of the alphabet \<open>chars\<close>, which has none of the glyphs I, O, 0 and 1. The
  lobby is registered with the code that the random numbers give, whatever the registry
  holds: the code is not compared with the codes of the live lobbies.
\<close>

theorem lobby_code_alphabet:
  assumes "\<forall>i<6. 0 \<le> rnd i \<and> rnd i < 1"
  shows "length (code (newLobby uuid rnd now host hostName lobbyName public)) = 6
     \<and> set (code (newLobby uuid rnd now host hostName lobbyName public))
          \<subseteq> set chars - set ambiguousGlyphs
     \<and> (\<exists>l. map_of (lobbyCreate uuid rnd now av col host hostName lobbyName public lobbies) uuid
              = Some l \<and> code l = generateLobbyCode rnd)"
proof -
  have c: "code (newLobby uuid rnd now host hostName lobbyName public) = generateLobbyCode rnd"
    by (simp add: newLobby_def Let_def)
  have reg: "\<exists>l. map_of (lobbyCreate uuid rnd now av col host hostName lobbyName public lobbies)
      uuid = Some l \<and> code l = generateLobbyCode rnd"
    by (simp add: lobbyCreate_def Let_def map_of_lobbiesSet code_seated)
  from generateLobbyCode_six [OF assms] chars_unambiguous reg show ?thesis
    unfolding c by blast
qed

theorem lobby_code_alphabet_witness:
  "code (newLobby ''u1'' (\<lambda>i. 1 / 2) 0 ''p1'' (JString (str ''Ann'')) (JString (str ''Room'')) True)
     = ''SSSSSS''
   \<and> length ''SSSSSS'' = 6 \<and> set ''SSSSSS'' \<subseteq> set chars - set ambiguousGlyphs"
proof -
  have r: "\<forall>i<6. 0 \<le> (\<lambda>i::nat. 1 / 2 :: real) i \<and> (\<lambda>i::nat. 1 / 2 :: real) i < 1"
    by simp
  have c: "code (newLobby ''u1'' (\<lambda>i. 1 / 2) 0 ''p1'' (JString (str ''Ann''))
      (JString (str ''Room'')) True) = ''SSSSSS''"
    by (simp add: newLobby_def Let_def code_half)
  from lobby_code_alphabet [OF r, of "''u1''" 0 "''p1''" "JString (str ''Ann'')"
      "JString (str ''Room'')" True "[]" "[]" "[]"]
  show ?thesis
    unfolding c by simp
qed

text \<open>
  The claim as stated fails when the random numbers repeat: two lobbies created with the
  same draws are both in the registry, under different ids, with the same code.
\<close>

theorem lobby_code_collision_counterexample:
  "\<not> codesUnique
       (lobbyCreate ''u2'' (\<lambda>i. 0) 20 [] [] ''p2'' (JString (str ''Bob'')) (JString (str ''Two'')) True
         (lobbyCreate ''u1'' (\<lambda>i. 0) 10 [] [] ''p1'' (JString (str ''Ann'')) (JString (str ''One''))
            True []))"
  by (simp add: codesUnique_def lobbyCreate_def Let_def code_seated)

section \<open>The invariant of the turn pointer\<close>

lemma findIndex_less: "findIndex P xs = Some k \<Longrightarrow> k < length xs"
  by (induction xs arbitrary: k) (auto split: if_splits)

lemma skipDead_in_range:
  "i < length ps \<Longrightarrow> \<exists>j. skipDead k ps (Some i) = Some j \<and> j < length ps"
proof (induction k arbitrary: i)
  case 0
  then show ?case by simp
next
  case (Suc k)
  from Suc.prems have "0 < length ps" by (cases ps) simp_all
  then have "(i + 1) mod length ps < length ps"
    by (rule mod_less_divisor)
  from Suc.IH [OF this] Suc.prems show ?case
    by auto
qed

lemma turnIndexOk_alt:
  "turnIndexOk L \<longleftrightarrow>
     (state L = Playing \<longrightarrow> (\<exists>i. currentTurnIndex L = Some i \<and> i < length (players L)))"
  by (auto simp: turnIndexOk_def split: option.splits)

lemma turnIndexOk_same:
  "turnIndexOk L \<Longrightarrow> state L' = state L \<Longrightarrow> currentTurnIndex L' = currentTurnIndex L
   \<Longrightarrow> length (players L) \<le> length (players L') \<Longrightarrow> turnIndexOk L'"
  by (auto simp: turnIndexOk_alt)

lemma turnIndexOk_not_playing: "state L \<noteq> Playing \<Longrightarrow> turnIndexOk L"
  by (simp add: turnIndexOk_def)

lemma addPlayer_ok: "turnIndexOk L \<Longrightarrow> turnIndexOk (snd (addPlayer now av col pid nm L))"
  by (rule turnIndexOk_same [of L]) (auto simp: addPlayer_def Let_def)

lemma endGame_ok: "turnIndexOk (endGame L)"
  by (simp add: turnIndexOk_def endGame_def)

lemma nextTurn_ok: "turnIndexOk L \<Longrightarrow> turnIndexOk (nextTurn syl now L)"
  using skipDead_in_range [of _ "players L" "length (players L)"]
  by (auto simp: turnIndexOk_alt nextTurn_def)

lemma advance_ok:
  "turnIndexOk L \<Longrightarrow> turnIndexOk (L\<lparr> currentTurnIndex := advanceIndex L \<rparr>)"
  by (auto simp: turnIndexOk_alt advanceIndex_def)

lemma handleTimeout_ok: "turnIndexOk L \<Longrightarrow> turnIndexOk (handleTimeout L)"
  by (rule turnIndexOk_same [of L])
     (auto simp: handleTimeout_def Let_def split: option.splits)

lemma timerTick_ok: "turnIndexOk L \<Longrightarrow> turnIndexOk (timerTick L)"
proof -
  assume ok: "turnIndexOk L"
  then have "turnIndexOk (L\<lparr> timerValue := js_sub (timerValue L) (toDouble (5 / 100)) \<rparr>)"
    by (rule turnIndexOk_same [of L]) simp_all
  with ok show ?thesis
    by (simp add: timerTick_def Let_def handleTimeout_ok)
qed

lemma afkCheck_ok: "turnIndexOk L \<Longrightarrow> turnIndexOk (afkCheck now L)"
  by (simp add: afkCheck_def Let_def handleTimeout_ok split: option.splits)

lemma submitWord_ok: "turnIndexOk L \<Longrightarrow> turnIndexOk (snd (submitWord lc W now pid word L))"
  by (rule turnIndexOk_same [of L])
     (auto simp: submitWord_def Let_def split: option.splits jsval.splits)

lemma updateTyping_ok: "turnIndexOk L \<Longrightarrow> turnIndexOk (updateTyping now pid t L)"
  by (rule turnIndexOk_same [of L])
     (auto simp: updateTyping_def Let_def split: option.splits)

lemma markDisconnected_ok: "turnIndexOk L \<Longrightarrow> turnIndexOk (markDisconnected now pid L)"
  by (rule turnIndexOk_same [of L]) (auto simp: markDisconnected_def split: option.splits)

lemma markConnected_ok: "turnIndexOk L \<Longrightarrow> turnIndexOk (markConnected pid L)"
  by (rule turnIndexOk_same [of L]) (auto simp: markConnected_def split: option.splits)

lemma gameReady_ok: "turnIndexOk L \<Longrightarrow> turnIndexOk (gameReady pid L)"
  by (rule turnIndexOk_same [of L]) (auto simp: gameReady_def split: option.splits)

lemma lobbySettings_ok: "turnIndexOk L \<Longrightarrow> turnIndexOk (lobbySettings sn pid req L)"
  by (rule turnIndexOk_same [of L]) (auto simp: lobbySettings_def Let_def)

lemma destroy_ok: "turnIndexOk L \<Longrightarrow> turnIndexOk (destroy L)"
  by (rule turnIndexOk_same [of L]) (auto simp: destroy_def)

lemma lobbyJoin_ok: "turnIndexOk L \<Longrightarrow> turnIndexOk (lobbyJoin now av col pid nm L)"
  by (rule turnIndexOk_same [of L])
     (auto simp: lobbyJoin_def addPlayer_def Let_def split: option.splits)

lemma resetAfterEnd_ok: "turnIndexOk (resetAfterEnd L)"
  by (simp add: turnIndexOk_def resetAfterEnd_def)

lemma removePlayer_playing:
  assumes "state L = Playing" "findIndex (\<lambda>p. id_p p = pid) (players L) = Some k"
    "currentTurnIndex L = Some i"
  shows "currentTurnIndex (removePlayer now pid L)
     = Some (if k < i then i - 1
             else if k = i
             then i mod max 1 (length (take k (players L) @ drop (Suc k) (players L)))
             else i)"
    and "players (removePlayer now pid L) = take k (players L) @ drop (Suc k) (players L)"
  using assms by (simp_all add: removePlayer_def Let_def endGame_def)

lemma removePlayer_index:
  assumes "state L = Playing" "findIndex (\<lambda>p. id_p p = pid) (players L) = Some k"
    "currentTurnIndex L = Some i"
  shows "currentTurnIndex (removePlayer now pid L)
     = Some (if k < i then i - 1
             else if k = i then i mod max 1 (length (players L) - 1) else i)"
proof -
  from assms(2) have "k < length (players L)" by (rule findIndex_less)
  then have len: "length (take k (players L) @ drop (Suc k) (players L)) = length (players L) - 1"
    by simp
  from removePlayer_playing(1) [OF assms] show ?thesis
    by (simp only: len)
qed

lemma removePlayer_ok:
  assumes "turnIndexOk L"
  shows "turnIndexOk (removePlayer now pid L)"
proof (cases "findIndex (\<lambda>p. id_p p = pid) (players L)")
  case None
  with assms show ?thesis by (simp add: removePlayer_def)
next
  case (Some k)
  then have k: "k < length (players L)" by (rule findIndex_less)
  show ?thesis
  proof (cases "state L = Playing")
    case False
    then have "state (removePlayer now pid L) \<noteq> Playing"
      using Some by (simp add: removePlayer_def Let_def)
    then show ?thesis by (rule turnIndexOk_not_playing)
  next
    case True
    with assms obtain i where i: "currentTurnIndex L = Some i" "i < length (players L)"
      by (auto simp: turnIndexOk_alt)
    let ?rest = "take k (players L) @ drop (Suc k) (players L)"
    have len: "length ?rest = length (players L) - 1"
      using k by simp
    show ?thesis
    proof (cases "state (removePlayer now pid L) = Playing")
      case False
      then show ?thesis by (rule turnIndexOk_not_playing)
    next
      case playing: True
      have idx: "currentTurnIndex (removePlayer now pid L)
         = Some (if k < i then i - 1
             else if k = i then i mod max 1 (length (players L) - 1) else i)"
        using True Some i(1) by (rule removePlayer_index)
      have ps: "players (removePlayer now pid L) = ?rest"
        using True Some i(1) by (rule removePlayer_playing(2))
      have "?rest \<noteq> []"
      proof
        assume empty: "?rest = []"
        then have "\<And>M. players M = ?rest \<Longrightarrow> length (getAlivePlayers M) \<le> 1"
          by (simp add: getAlivePlayers_def)
        then have "state (removePlayer now pid L) = Finished"
          using True Some i(1)
          by (simp add: removePlayer_def Let_def endGame_def del: length_append)
        with playing show False by simp
      qed
      then have pos: "0 < length (players L) - 1"
        using len by (cases ?rest) simp_all
      have "(if k < i then i - 1
             else if k = i then i mod max 1 (length (players L) - 1) else i) < length (players L) - 1"
        using i(2) k pos by (auto simp: max_def)
      with idx ps len playing show ?thesis
        by (simp add: turnIndexOk_alt del: length_append length_take length_drop)
    qed
  qed
qed

lemma gameStart_ok:
  assumes "turnIndexOk L"
  shows "turnIndexOk (snd (gameStart syl now pid L))"
proof (cases "fst (gameStart syl now pid L) = Inr True")
  case False
  then have "snd (gameStart syl now pid L) = L"
    by (auto simp: gameStart_cases split: if_splits)
  with assms show ?thesis by simp
next
  case True
  then have r: "2 \<le> length (readyPlayers L)"
    and s: "snd (gameStart syl now pid L) = nextTurn syl now
        (L\<lparr> state := Playing, usedWords := {}, currentTurnIndex := Some 0,
            players := map (resetForGame L) (readyPlayers L) \<rparr>)"
    by (auto simp: gameStart_cases split: if_splits)
  from r have "turnIndexOk (L\<lparr> state := Playing, usedWords := {}, currentTurnIndex := Some 0,
            players := map (resetForGame L) (readyPlayers L) \<rparr>)"
    by (auto simp: turnIndexOk_def)
  then show ?thesis
    unfolding s by (rule nextTurn_ok)
qed

lemma drop_pending_ok:
  "turnIndexOk L \<Longrightarrow> turnIndexOk (L\<lparr> pending := q \<rparr>)"
  by (rule turnIndexOk_same [of L]) simp_all

lemma advanceAfterWord_ok: "turnIndexOk L \<Longrightarrow> turnIndexOk (advanceAfterWord syl now L)"
  by (simp add: advanceAfterWord_def nextTurn_ok advance_ok)

lemma afterExplosion_ok: "turnIndexOk L \<Longrightarrow> turnIndexOk (afterExplosion n syl now L)"
  by (simp add: afterExplosion_def nextTurn_ok advance_ok endGame_ok)

lemma fireDeferred_ok:
  assumes "turnIndexOk L"
  shows "turnIndexOk (fireDeferred k syl now L)"
proof (cases "k < length (pending L)")
  case False
  with assms show ?thesis by (simp add: fireDeferred_def)
next
  case True
  let ?L' = "L\<lparr> pending := take k (pending L) @ drop (Suc k) (pending L) \<rparr>"
  have ok: "turnIndexOk ?L'"
    using assms by (rule drop_pending_ok)
  show ?thesis
  proof (cases "pending L ! k")
    case AdvanceAfterWord
    with True ok show ?thesis
      by (simp add: fireDeferred_def Let_def advanceAfterWord_ok)
  next
    case (AfterExplosion n)
    with True ok show ?thesis
      by (simp add: fireDeferred_def Let_def afterExplosion_ok)
  next
    case ResetAfterEnd
    with True show ?thesis
      by (simp add: fireDeferred_def Let_def resetAfterEnd_ok)
  qed
qed

lemma applyEvent_ok: "turnIndexOk L \<Longrightarrow> turnIndexOk (applyEvent lc W sn L ev)"
  by (cases ev)
     (simp_all add: addPlayer_ok removePlayer_ok markDisconnected_ok markConnected_ok
        gameReady_ok lobbySettings_ok gameStart_ok submitWord_ok timerTick_ok afkCheck_ok
        fireDeferred_ok lobbyJoin_ok updateTyping_ok destroy_ok)

lemma run_ok: "turnIndexOk L \<Longrightarrow> turnIndexOk (run lc W sn L evs)"
  unfolding run_def
  by (induction evs arbitrary: L) (simp_all add: applyEvent_ok)

lemma newLobby_ok: "turnIndexOk (newLobby uuid rnd now host hostName lobbyName public)"
  by (simp add: turnIndexOk_def newLobby_def Let_def)

text \<open>
  C3. In every state that a lobby reaches from its construction, by any sequence of
  method calls, handler calls and callbacks, \<open>currentTurnIndex\<close> is an index into the
  roster whenever the state is \<open>playing\<close> and the roster is not empty. The invariant
  \<open>turnIndexOk\<close> (which also says that the roster of a game is not empty) is kept by
  every event. During a game, \<^verbatim>\<open>removePlayer\<close> of the player at position \<open>k\<close> decrements
  the index \<open>i\<close> when \<open>k < i\<close> and, when \<open>k = i\<close>, replaces it by its remainder modulo the
  new size of the roster (modulo \<open>1\<close> when the roster becomes empty).
\<close>

theorem turn_index_invariant:
  "(let L' = run lc W sn (newLobby uuid rnd t0 host hostName lobbyName public) evs
    in state L' = Playing \<and> players L' \<noteq> []
       \<longrightarrow> (\<exists>i. currentTurnIndex L' = Some i \<and> i < length (players L')))
   \<and> (turnIndexOk L \<longrightarrow> turnIndexOk (applyEvent lc W sn L ev)
         \<and> turnIndexOk (nextTurn syl now' L) \<and> turnIndexOk (handleTimeout L))
   \<and> (state L = Playing \<and> findIndex (\<lambda>p. id_p p = pid) (players L) = Some k
        \<and> currentTurnIndex L = Some i
      \<longrightarrow> currentTurnIndex (removePlayer now pid L)
            = Some (if k < i then i - 1
                    else if k = i then i mod max 1 (length (players L) - 1) else i))"
proof (intro conjI impI)
  have "turnIndexOk (run lc W sn (newLobby uuid rnd t0 host hostName lobbyName public) evs)"
    using newLobby_ok by (rule run_ok)
  then show "let L' = run lc W sn (newLobby uuid rnd t0 host hostName lobbyName public) evs
    in state L' = Playing \<and> players L' \<noteq> []
       \<longrightarrow> (\<exists>i. currentTurnIndex L' = Some i \<and> i < length (players L'))"
    by (simp add: turnIndexOk_alt Let_def)
next
  assume ok: "turnIndexOk L"
  then show "turnIndexOk (applyEvent lc W sn L ev)" by (rule applyEvent_ok)
  from ok show "turnIndexOk (nextTurn syl now' L)" by (rule nextTurn_ok)
  from ok show "turnIndexOk (handleTimeout L)" by (rule handleTimeout_ok)
next
  assume "state L = Playing \<and> findIndex (\<lambda>p. id_p p = pid) (players L) = Some k
        \<and> currentTurnIndex L = Some i"
  then show "currentTurnIndex (removePlayer now pid L)
            = Some (if k < i then i - 1
                    else if k = i then i mod max 1 (length (players L) - 1) else i)"
    using removePlayer_index by blast
qed

lemma exGame3_facts:
  "findIndex (\<lambda>p. id_p p = ''p1'') (players exGame3) = Some 0"
  "findIndex (\<lambda>p. id_p p = ''p3'') (players exGame3) = Some 2"
  "state exGame3 = Playing" "currentTurnIndex exGame3 = Some 2"
  "length (players exGame3) = 3"
  by (simp_all add: ex_defs)

lemma exEvents_run:
  "state (run asciiLower exWords (\<lambda>s. NaN)
     (newLobby ''u1'' (\<lambda>i. 0) 0 ''p1'' (JString (str ''Ann'')) (JString (str ''Room'')) True)
     exEvents) = Playing"
  "map id_p (players (run asciiLower exWords (\<lambda>s. NaN)
     (newLobby ''u1'' (\<lambda>i. 0) 0 ''p1'' (JString (str ''Ann'')) (JString (str ''Room'')) True)
     exEvents)) = [''p1'', ''p2'']"
  by (simp_all add: run_def exEvents_def newLobby_def addPlayer_def lobbyJoin_def gameReady_def
        gameStart_def startGame_def nextTurn_def Let_def js_ge_def san_defs str_def)

theorem turn_index_invariant_witness:
  "(\<exists>i. currentTurnIndex (run asciiLower exWords (\<lambda>s. NaN)
          (newLobby ''u1'' (\<lambda>i. 0) 0 ''p1'' (JString (str ''Ann'')) (JString (str ''Room'')) True)
          exEvents) = Some i \<and> i < 2)
   \<and> currentTurnIndex (removePlayer 5 ''p1'' exGame3) = Some 1
   \<and> currentTurnIndex (removePlayer 5 ''p3'' exGame3) = Some 0"
proof -
  let ?L = "run asciiLower exWords (\<lambda>s. NaN)
     (newLobby ''u1'' (\<lambda>i. 0) 0 ''p1'' (JString (str ''Ann'')) (JString (str ''Room'')) True)
     exEvents"
  have two: "length (players ?L) = 2"
    using exEvents_run(2) length_map [of id_p "players ?L"] by simp
  then have some: "players ?L \<noteq> []" by auto
  have a: "\<exists>i. currentTurnIndex ?L = Some i \<and> i < 2"
    using turn_index_invariant [of asciiLower exWords "\<lambda>s. NaN" "''u1''" "\<lambda>i. 0" 0 "''p1''"
        "JString (str ''Ann'')" "JString (str ''Room'')" True exEvents]
      exEvents_run(1) some two
    by (simp add: Let_def)
  have b: "currentTurnIndex (removePlayer 5 ''p1'' exGame3) = Some 1"
    using turn_index_invariant [where L = exGame3 and pid = "''p1''" and k = 0 and i = 2
        and now = 5] exGame3_facts
    by simp
  have c: "currentTurnIndex (removePlayer 5 ''p3'' exGame3) = Some 0"
    using turn_index_invariant [where L = exGame3 and pid = "''p3''" and k = 2 and i = 2
        and now = 5] exGame3_facts
    by (simp add: numeral_2_eq_2)
  from a b c show ?thesis by simp
qed

section \<open>Timeouts and submissions within a turn\<close>

lemma handleTimeout_locks: "turnLocked (handleTimeout L)"
  by (simp add: handleTimeout_def Let_def split: option.splits)

lemma handleTimeout_timer: "\<not> timer (handleTimeout L)"
  by (simp add: handleTimeout_def Let_def split: option.splits)

lemma submitWord_locked:
  "turnLocked L \<Longrightarrow> fst (submitWord lc W now pid word L) \<noteq> Success
     \<and> snd (submitWord lc W now pid word L) = L"
  by (simp add: submitWord_def)

lemma submitWord_accept_timer:
  assumes "fst (submitWord lc W now pid word L) = Success"
  shows "\<not> turnLocked (snd (submitWord lc W now pid word L))
     \<and> \<not> timer (snd (submitWord lc W now pid word L))"
  using assms
  by (auto simp: submitWord_def Let_def split: option.splits jsval.splits if_splits)

lemma timerTick_off: "\<not> timer L \<Longrightarrow> timerTick L = L"
  by (simp add: timerTick_def)

lemma turnLocked_removePlayer: "turnLocked (removePlayer now pid L) = turnLocked L"
  by (simp add: removePlayer_def Let_def endGame_def split: option.splits)

lemma timer_removePlayer: "\<not> timer L \<Longrightarrow> \<not> timer (removePlayer now pid L)"
  by (simp add: removePlayer_def Let_def endGame_def split: option.splits)

lemma quiet_addPlayer:
  "turnLocked (snd (addPlayer now av col pid nm L)) = turnLocked L"
  "timer (snd (addPlayer now av col pid nm L)) = timer L"
  by (simp_all add: addPlayer_def Let_def)

lemma quiet_markDisconnected:
  "turnLocked (markDisconnected now pid L) = turnLocked L"
  "timer (markDisconnected now pid L) = timer L"
  by (simp_all add: markDisconnected_def split: option.splits)

lemma quiet_markConnected:
  "turnLocked (markConnected pid L) = turnLocked L"
  "timer (markConnected pid L) = timer L"
  by (simp_all add: markConnected_def split: option.splits)

lemma quiet_gameReady:
  "turnLocked (gameReady pid L) = turnLocked L"
  "timer (gameReady pid L) = timer L"
  by (simp_all add: gameReady_def split: option.splits)

lemma quiet_lobbySettings:
  "turnLocked (lobbySettings sn pid req L) = turnLocked L"
  "timer (lobbySettings sn pid req L) = timer L"
  by (simp_all add: lobbySettings_def Let_def)

lemma quiet_lobbyJoin:
  "turnLocked (lobbyJoin now av col pid nm L) = turnLocked L"
  "timer (lobbyJoin now av col pid nm L) = timer L"
  by (simp_all add: lobbyJoin_def quiet_addPlayer split: option.splits)

lemma quiet_updateTyping:
  "turnLocked (updateTyping now pid t L) = turnLocked L"
  "timer (updateTyping now pid t L) = timer L"
  by (simp_all add: updateTyping_def Let_def split: option.splits)

lemma quiet_destroy:
  "turnLocked (destroy L) = turnLocked L"
  "\<not> timer (destroy L)"
  by (simp_all add: destroy_def)

lemma timer_submitWord: "\<not> timer L \<Longrightarrow> \<not> timer (snd (submitWord lc W now pid word L))"
proof (cases "fst (submitWord lc W now pid word L)")
  case Success
  then show ?thesis using submitWord_accept_timer by blast
next
  case (Failure r)
  assume "\<not> timer L"
  moreover from Failure have "snd (submitWord lc W now pid word L) = L"
    by (auto simp: submitWord_def Let_def split: option.splits jsval.splits if_splits)
  ultimately show ?thesis by simp
qed

lemma turnLocked_applyEvent:
  assumes "turnLocked L" "\<not> callsNextTurn ev"
  shows "turnLocked (applyEvent lc W sn L ev)"
proof (cases ev)
  case (EvSubmit now pid word)
  with assms(1) show ?thesis by (simp add: submitWord_locked)
next
  case EvTick
  with assms(1) show ?thesis by (simp add: timerTick_def Let_def handleTimeout_locks)
next
  case (EvAfkCheck now)
  with assms(1) show ?thesis
    by (simp add: afkCheck_def Let_def handleTimeout_locks split: option.splits)
next
  case (EvRemovePlayer now pid)
  with assms(1) show ?thesis by (simp add: turnLocked_removePlayer)
qed (use assms in \<open>simp_all add: quiet_addPlayer quiet_markDisconnected quiet_markConnected
       quiet_gameReady quiet_lobbySettings quiet_lobbyJoin quiet_updateTyping quiet_destroy\<close>)

lemma timer_off_applyEvent:
  assumes "\<not> timer L" "\<not> callsNextTurn ev"
  shows "\<not> timer (applyEvent lc W sn L ev)"
proof (cases ev)
  case (EvSubmit now pid word)
  with assms(1) show ?thesis by (simp add: timer_submitWord)
next
  case EvTick
  with assms(1) show ?thesis by (simp add: timerTick_def)
next
  case (EvAfkCheck now)
  with assms(1) show ?thesis
    by (simp add: afkCheck_def Let_def handleTimeout_timer split: option.splits)
next
  case (EvRemovePlayer now pid)
  with assms(1) show ?thesis by (simp add: timer_removePlayer)
qed (use assms in \<open>simp_all add: quiet_addPlayer quiet_markDisconnected quiet_markConnected
       quiet_gameReady quiet_lobbySettings quiet_lobbyJoin quiet_updateTyping quiet_destroy\<close>)

lemma turnLocked_run:
  "turnLocked L \<Longrightarrow> list_all (\<lambda>e. \<not> callsNextTurn e) evs \<Longrightarrow> turnLocked (run lc W sn L evs)"
  unfolding run_def
  by (induction evs arbitrary: L) (simp_all add: turnLocked_applyEvent)

lemma timer_off_run:
  "\<not> timer L \<Longrightarrow> list_all (\<lambda>e. \<not> callsNextTurn e) evs \<Longrightarrow> \<not> timer (run lc W sn L evs)"
  unfolding run_def
  by (induction evs arbitrary: L) (simp_all add: timer_off_applyEvent)

text \<open>
  C2 (as amended). \<^verbatim>\<open>handleTimeout\<close> locks the turn; the turn stays locked over every
  sequence of events in which \<^verbatim>\<open>nextTurn\<close> is not called, and a submission to a locked
  turn is not accepted and leaves the lobby as it was: after the life is lost, no score
  is awarded in that turn. An accepted submission leaves the turn unlocked; it clears
  the timer, so that the timer callback does nothing, and the timer stays cleared until
  \<^verbatim>\<open>nextTurn\<close> is called.
\<close>

theorem turn_lock_after_timeout:
  "turnLocked (handleTimeout L)
   \<and> (turnLocked L \<and> list_all (\<lambda>e. \<not> callsNextTurn e) evs \<longrightarrow> turnLocked (run lc W sn L evs))
   \<and> (turnLocked L \<longrightarrow> fst (submitWord lc W now pid word L) \<noteq> Success
                         \<and> snd (submitWord lc W now pid word L) = L)
   \<and> (fst (submitWord lc W now pid word L) = Success \<longrightarrow>
        \<not> turnLocked (snd (submitWord lc W now pid word L))
        \<and> \<not> timer (snd (submitWord lc W now pid word L))
        \<and> timerTick (snd (submitWord lc W now pid word L)) = snd (submitWord lc W now pid word L))
   \<and> (\<not> timer L \<and> list_all (\<lambda>e. \<not> callsNextTurn e) evs \<longrightarrow> \<not> timer (run lc W sn L evs))"
proof (intro conjI impI)
  show "turnLocked (handleTimeout L)" by (rule handleTimeout_locks)
next
  assume "turnLocked L \<and> list_all (\<lambda>e. \<not> callsNextTurn e) evs"
  then show "turnLocked (run lc W sn L evs)" by (simp add: turnLocked_run)
next
  assume "turnLocked L"
  then show "fst (submitWord lc W now pid word L) \<noteq> Success"
    and "snd (submitWord lc W now pid word L) = L"
    by (simp_all add: submitWord_locked)
next
  assume ok: "fst (submitWord lc W now pid word L) = Success"
  from submitWord_accept_timer [OF ok]
  show "\<not> turnLocked (snd (submitWord lc W now pid word L))"
    and off: "\<not> timer (snd (submitWord lc W now pid word L))"
    by simp_all
  from off show "timerTick (snd (submitWord lc W now pid word L))
      = snd (submitWord lc W now pid word L)"
    by (rule timerTick_off)
next
  assume "\<not> timer L \<and> list_all (\<lambda>e. \<not> callsNextTurn e) evs"
  then show "\<not> timer (run lc W sn L evs)" by (simp add: timer_off_run)
qed

lemma exLobby_timeout:
  "handleTimeout exLobby
   = exLobby \<lparr> timer := False, turnLocked := True,
        players := [(exPlayer ''p1'' (str ''Ann'') True) \<lparr> lives := Num 2 \<rparr>,
                    exPlayer ''p2'' (str ''Bob'') True],
        pending := [AfterExplosion 2] \<rparr>"
  by (simp add: handleTimeout_def ex_defs Let_def getAlivePlayers_def js_sub_def js_gt_def
        dbl_defs)

theorem turn_lock_after_timeout_witness:
  "lives (players (handleTimeout exLobby) ! 0) = Num 2
   \<and> turnLocked (run asciiLower exWords (\<lambda>s. NaN) (handleTimeout exLobby) [EvTick, EvAfkCheck 7])
   \<and> fst (submitWord asciiLower exWords 1200 ''p1'' (JString (str ''banana''))
            (handleTimeout exLobby)) \<noteq> Success
   \<and> snd (submitWord asciiLower exWords 1200 ''p1'' (JString (str ''banana''))
            (handleTimeout exLobby)) = handleTimeout exLobby
   \<and> timerTick (snd (submitWord asciiLower exWords 1000 ''p1'' (JString (str ''banana''))
                       exLobby))
      = snd (submitWord asciiLower exWords 1000 ''p1'' (JString (str ''banana'')) exLobby)"
proof -
  have l: "lives (players (handleTimeout exLobby) ! 0) = Num 2"
    by (simp add: exLobby_timeout exPlayer_def)
  have locked: "turnLocked (handleTimeout exLobby)"
    using turn_lock_after_timeout [of exLobby] by simp
  have quiet: "list_all (\<lambda>e. \<not> callsNextTurn e) [EvTick, EvAfkCheck 7]"
    by simp
  have ok: "fst (submitWord asciiLower exWords 1000 ''p1'' (JString (str ''banana'')) exLobby)
      = Success"
    by (simp add: exLobby_banana)
  from turn_lock_after_timeout [where L = "handleTimeout exLobby" and lc = asciiLower
      and W = exWords and sn = "\<lambda>s. NaN" and evs = "[EvTick, EvAfkCheck 7]" and now = 1200
      and pid = "''p1''" and word = "JString (str ''banana'')"]
    turn_lock_after_timeout [where L = exLobby and lc = asciiLower and W = exWords
      and now = 1000 and pid = "''p1''" and word = "JString (str ''banana'')"]
    l locked quiet ok
  show ?thesis by simp
qed

lemma exLobby_bandit:
  "submitWord asciiLower exWords 1100 ''p1'' (JString (str ''bandit''))
     (exLobby \<lparr> usedWords := {str ''banana''},
        players := [(exPlayer ''p1'' (str ''Ann'') True)
                      \<lparr> score := Some (Num 90), wordsCompleted := Some (Num 1) \<rparr>,
                    exPlayer ''p2'' (str ''Bob'') True],
        lastActivity := 1000, timer := False, pending := [AdvanceAfterWord] \<rparr>)
   = (Success, exLobby \<lparr> usedWords := {str ''bandit'', str ''banana''},
        players := [(exPlayer ''p1'' (str ''Ann'') True)
                      \<lparr> score := Some (Num 180), wordsCompleted := Some (Num 2) \<rparr>,
                    exPlayer ''p2'' (str ''Bob'') True],
        lastActivity := 1100, timer := False,
        pending := [AdvanceAfterWord, AdvanceAfterWord] \<rparr>)"
  by (simp add: submitWord_def ex_defs validateWord_def san_defs sublist_code Let_def
        totalScore_def js_sub_def dbl_defs)

text \<open>
  The claim as stated fails when the active player submits twice before the callback of
  the first acceptance has run: in the game \<open>exLobby\<close>, \<open>p1\<close> submits \<open>banana\<close>, which is
  accepted and leaves the turn unlocked, and then \<open>bandit\<close>, which is accepted in the same
  turn. Two scores are awarded in one turn, and two advances of the turn are pending.
\<close>

theorem double_submission_counterexample:
  "fst (submitWord asciiLower exWords 1000 ''p1'' (JString (str ''banana'')) exLobby) = Success
   \<and> turnLocked (snd (submitWord asciiLower exWords 1000 ''p1'' (JString (str ''banana''))
                        exLobby)) = False
   \<and> fst (submitWord asciiLower exWords 1100 ''p1'' (JString (str ''bandit''))
            (snd (submitWord asciiLower exWords 1000 ''p1'' (JString (str ''banana'')) exLobby)))
       = Success
   \<and> wordsCompleted (players (snd (submitWord asciiLower exWords 1100 ''p1''
         (JString (str ''bandit''))
         (snd (submitWord asciiLower exWords 1000 ''p1'' (JString (str ''banana'')) exLobby))))
       ! 0) = Some (Num 2)
   \<and> pending (snd (submitWord asciiLower exWords 1100 ''p1'' (JString (str ''bandit''))
         (snd (submitWord asciiLower exWords 1000 ''p1'' (JString (str ''banana'')) exLobby))))
       = [AdvanceAfterWord, AdvanceAfterWord]"
  by (simp add: exLobby_banana exLobby_bandit)
     (simp add: exLobby_def)

end
